theory Spec2Isabelle
  imports Main "HOL-Library.Word"
begin

unbundle bit_operations_syntax

section \<open>Strings and the Python primitives used by goodscraper.py\<close>

text \<open>
  A Python \<open>str\<close> is a sequence of code points. It is modelled as a \<open>string\<close> whose
  characters are the code points U+0000 to U+00FF, so \<open>length\<close> counts code points as
  Python's \<open>len\<close> does. On that range the character classes of Python are the ones
  written out below.
\<close>

definition is_decimal :: "char \<Rightarrow> bool" where
  \<comment> \<open>what \<open>\d\<close> of \<open>re\<close> matches and what \<open>int\<close> reads as a digit\<close>
  "is_decimal c = (c \<in> set ''0123456789'')"

definition py_isdigit_char :: "char \<Rightarrow> bool" where
  \<comment> \<open>\<open>str.isdigit\<close> on one character: the decimal digits and the superscript digits
      U+00B2, U+00B3 and U+00B9\<close>
  "py_isdigit_char c = (is_decimal c \<or> c \<in> set [CHR 0xB2, CHR 0xB3, CHR 0xB9])"

definition py_isspace :: "char \<Rightarrow> bool" where
  \<comment> \<open>\<open>str.isspace\<close> on one character; the set that \<open>str.strip()\<close> removes\<close>
  "py_isspace c = (c \<in> set [CHR 0x09, CHR 0x0A, CHR 0x0B, CHR 0x0C, CHR 0x0D,
                               CHR 0x1C, CHR 0x1D, CHR 0x1E, CHR 0x1F, CHR 0x20,
                               CHR 0x85, CHR 0xA0])"

definition int_isspace :: "char \<Rightarrow> bool" where
  \<comment> \<open>the white space that \<open>int(s)\<close> skips around the number\<close>
  "int_isspace c = (c \<in> set [CHR 0x09, CHR 0x0A, CHR 0x0B, CHR 0x0C, CHR 0x0D,
                                CHR 0x20, CHR 0x85, CHR 0xA0])"

definition str_isdigit :: "string \<Rightarrow> bool" where
  \<comment> \<open>\<open>s.isdigit()\<close>: at least one character, and every character a digit\<close>
  "str_isdigit s = (s \<noteq> [] \<and> list_all py_isdigit_char s)"

definition startswith :: "string \<Rightarrow> string \<Rightarrow> bool" where
  \<comment> \<open>\<open>s.startswith(p)\<close>\<close>
  "startswith s p = (take (length p) s = p)"

fun contains :: "string \<Rightarrow> string \<Rightarrow> bool" where
  \<comment> \<open>\<open>p in s\<close> for two strings\<close>
  "contains [] p = (p = [])"
| "contains (c # cs) p = (startswith (c # cs) p \<or> contains cs p)"

definition lstrip_by :: "(char \<Rightarrow> bool) \<Rightarrow> string \<Rightarrow> string" where
  "lstrip_by ws s = dropWhile ws s"

definition rstrip_by :: "(char \<Rightarrow> bool) \<Rightarrow> string \<Rightarrow> string" where
  "rstrip_by ws s = rev (dropWhile ws (rev s))"

definition py_strip :: "string \<Rightarrow> string" where
  \<comment> \<open>\<open>s.strip()\<close>\<close>
  "py_strip s = rstrip_by py_isspace (lstrip_by py_isspace s)"

fun join :: "string \<Rightarrow> string list \<Rightarrow> string" where
  \<comment> \<open>\<open>sep.join(parts)\<close>\<close>
  "join sep [] = []"
| "join sep [p] = p"
| "join sep (p # q # ps) = p @ sep @ join sep (q # ps)"

definition replace_char :: "char \<Rightarrow> string \<Rightarrow> string" where
  \<comment> \<open>\<open>s.replace(c, "")\<close> for a one-character \<open>c\<close>\<close>
  "replace_char c s = filter (\<lambda>x. x \<noteq> c) s"

subsection \<open>Integers and their decimal text\<close>

definition digit_val :: "char \<Rightarrow> int" where
  "digit_val c = int (of_char c) - 48"

definition digits_val :: "string \<Rightarrow> int" where
  "digits_val ds = foldl (\<lambda>a c. 10 * a + digit_val c) 0 ds"

fun int_body :: "bool \<Rightarrow> string \<Rightarrow> string option" where
  \<comment> \<open>the digits of a literal \<open>d(_?d)*\<close> with the underscores removed; the flag says
      that the previous character was a digit\<close>
  "int_body prev [] = (if prev then Some [] else None)"
| "int_body prev (c # cs) =
     (if is_decimal c then map_option ((#) c) (int_body True cs)
      else if c = CHR ''_'' \<and> prev then int_body False cs
      else None)"

definition max_str_digits :: nat where
  \<comment> \<open>CPython's default limit on the digits of an integer string\<close>
  "max_str_digits = 4300"

definition py_int :: "string \<Rightarrow> int option" where
  \<comment> \<open>\<open>int(s)\<close>; \<open>None\<close> is ValueError\<close>
  "py_int s =
     (let t = rstrip_by int_isspace (lstrip_by int_isspace s);
          (neg, body) = (case t of
                           c # cs \<Rightarrow> if c = CHR ''-'' then (True, cs)
                                     else if c = CHR ''+'' then (False, cs)
                                     else (False, t)
                         | [] \<Rightarrow> (False, t))
      in case int_body False body of
           None \<Rightarrow> None
         | Some ds \<Rightarrow> if length ds > max_str_digits then None
                      else Some (if neg then - digits_val ds else digits_val ds))"

definition digit_char :: "nat \<Rightarrow> char" where
  \<comment> \<open>the character of a digit below ten\<close>
  "digit_char d = ''0123456789'' ! d"

fun nat_digits :: "nat \<Rightarrow> nat \<Rightarrow> string" where
  \<comment> \<open>the decimal digits of \<open>n\<close>, most significant first; the first argument bounds the
      number of digits\<close>
  "nat_digits 0 n = []"
| "nat_digits (Suc k) n =
     (if n < 10 then [digit_char n]
      else nat_digits k (n div 10) @ [digit_char (n mod 10)])"

definition py_str_nat :: "nat \<Rightarrow> string" where
  \<comment> \<open>\<open>str(n)\<close> for \<open>n \<ge> 0\<close>\<close>
  "py_str_nat n = nat_digits (Suc n) n"

subsection \<open>The two regular expressions\<close>

fun re_search_d4 :: "string \<Rightarrow> string option" where
  \<comment> \<open>\<open>re.search(r"(\d{4})", text)\<close>: group 1 of the leftmost match\<close>
  "re_search_d4 [] = None"
| "re_search_d4 (c # cs) =
     (if 4 \<le> length (c # cs) \<and> list_all is_decimal (take 4 (c # cs))
      then Some (take 4 (c # cs))
      else re_search_d4 cs)"

fun digit_runs :: "string \<Rightarrow> string \<Rightarrow> string list" where
  \<comment> \<open>the maximal digit runs, left to right; the first argument is the run being read\<close>
  "digit_runs cur [] = (if cur = [] then [] else [cur])"
| "digit_runs cur (c # cs) =
     (if is_decimal c then digit_runs (cur @ [c]) cs
      else (if cur = [] then [] else [cur]) @ digit_runs [] cs)"

definition re_findall_digits :: "string \<Rightarrow> string list" where
  \<comment> \<open>\<open>re.findall(r"\d+", text)\<close>\<close>
  "re_findall_digits text = digit_runs [] text"

subsection \<open>UTF-8 and SHA-256\<close>

type_synonym byte = "8 word"

definition utf8_char :: "char \<Rightarrow> byte list" where
  \<comment> \<open>the UTF-8 bytes of one code point below U+0100\<close>
  "utf8_char c =
     (let n = (of_char c :: nat)
      in if n < 128 then [of_nat n]
         else [of_nat (192 + n div 64), of_nat (128 + n mod 64)])"

definition utf8_encode :: "string \<Rightarrow> byte list" where
  \<comment> \<open>\<open>s.encode("utf-8")\<close>\<close>
  "utf8_encode s = concat (map utf8_char s)"

definition sha_K :: "32 word list" where
  "sha_K = [
      0x428A2F98, 0x71374491, 0xB5C0FBCF, 0xE9B5DBA5, 0x3956C25B, 0x59F111F1,
      0x923F82A4, 0xAB1C5ED5, 0xD807AA98, 0x12835B01, 0x243185BE, 0x550C7DC3,
      0x72BE5D74, 0x80DEB1FE, 0x9BDC06A7, 0xC19BF174, 0xE49B69C1, 0xEFBE4786,
      0x0FC19DC6, 0x240CA1CC, 0x2DE92C6F, 0x4A7484AA, 0x5CB0A9DC, 0x76F988DA,
      0x983E5152, 0xA831C66D, 0xB00327C8, 0xBF597FC7, 0xC6E00BF3, 0xD5A79147,
      0x06CA6351, 0x14292967, 0x27B70A85, 0x2E1B2138, 0x4D2C6DFC, 0x53380D13,
      0x650A7354, 0x766A0ABB, 0x81C2C92E, 0x92722C85, 0xA2BFE8A1, 0xA81A664B,
      0xC24B8B70, 0xC76C51A3, 0xD192E819, 0xD6990624, 0xF40E3585, 0x106AA070,
      0x19A4C116, 0x1E376C08, 0x2748774C, 0x34B0BCB5, 0x391C0CB3, 0x4ED8AA4A,
      0x5B9CCA4F, 0x682E6FF3, 0x748F82EE, 0x78A5636F, 0x84C87814, 0x8CC70208,
      0x90BEFFFA, 0xA4506CEB, 0xBEF9A3F7, 0xC67178F2]"

definition sha_H0 :: "32 word list" where
  "sha_H0 = [
      0x6A09E667, 0xBB67AE85, 0x3C6EF372, 0xA54FF53A, 0x510E527F, 0x9B05688C,
      0x1F83D9AB, 0x5BE0CD19]"

definition Ch :: "32 word \<Rightarrow> 32 word \<Rightarrow> 32 word \<Rightarrow> 32 word" where
  "Ch x y z = (x AND y) XOR (NOT x AND z)"

definition Maj :: "32 word \<Rightarrow> 32 word \<Rightarrow> 32 word \<Rightarrow> 32 word" where
  "Maj x y z = (x AND y) XOR (x AND z) XOR (y AND z)"

definition Sigma0 :: "32 word \<Rightarrow> 32 word" where
  "Sigma0 x = word_rotr 2 x XOR word_rotr 13 x XOR word_rotr 22 x"

definition Sigma1 :: "32 word \<Rightarrow> 32 word" where
  "Sigma1 x = word_rotr 6 x XOR word_rotr 11 x XOR word_rotr 25 x"

definition sigma0 :: "32 word \<Rightarrow> 32 word" where
  "sigma0 x = word_rotr 7 x XOR word_rotr 18 x XOR drop_bit 3 x"

definition sigma1 :: "32 word \<Rightarrow> 32 word" where
  "sigma1 x = word_rotr 17 x XOR word_rotr 19 x XOR drop_bit 10 x"

definition bytes_of_word32 :: "32 word \<Rightarrow> byte list" where
  \<comment> \<open>the four bytes of a word, most significant first\<close>
  "bytes_of_word32 w = [ucast (drop_bit 24 w), ucast (drop_bit 16 w), ucast (drop_bit 8 w), ucast w]"

definition bytes_of_word64 :: "64 word \<Rightarrow> byte list" where
  \<comment> \<open>the eight bytes of a word, most significant first\<close>
  "bytes_of_word64 w = map (\<lambda>i. ucast (drop_bit (8 * i) w)) [7, 6, 5, 4, 3, 2, 1, 0]"

definition sha_pad :: "byte list \<Rightarrow> byte list" where
  \<comment> \<open>the message, the byte 0x80, zeros up to 56 modulo 64, the bit length on 8 bytes\<close>
  "sha_pad m =
     m @ [0x80] @ replicate ((119 - length m mod 64) mod 64) 0
       @ bytes_of_word64 (of_nat (8 * length m))"

fun be_words :: "byte list \<Rightarrow> 32 word list" where
  \<comment> \<open>big-endian 32-bit words of a byte sequence\<close>
  "be_words (a # b # c # d # bs) =
     (push_bit 24 (ucast a) OR push_bit 16 (ucast b) OR push_bit 8 (ucast c) OR ucast d)
       # be_words bs"
| "be_words bs = []"

primrec sha_blocks :: "nat \<Rightarrow> 32 word list \<Rightarrow> 32 word list list" where
  \<comment> \<open>the first \<open>n\<close> blocks of 16 words\<close>
  "sha_blocks 0 ws = []"
| "sha_blocks (Suc n) ws = take 16 ws # sha_blocks n (drop 16 ws)"

primrec sha_schedule :: "nat \<Rightarrow> 32 word list \<Rightarrow> 32 word list" where
  \<comment> \<open>extends the message schedule by \<open>n\<close> words\<close>
  "sha_schedule 0 w = w"
| "sha_schedule (Suc n) w =
     (let t = length w
      in sha_schedule n
           (w @ [sigma1 (w ! (t - 2)) + w ! (t - 7) + sigma0 (w ! (t - 15)) + w ! (t - 16)]))"

fun sha_round :: "32 word list \<Rightarrow> 32 word \<times> 32 word \<Rightarrow> 32 word list" where
  \<comment> \<open>one round on the working variables a to h, with the round's constant and word\<close>
  "sha_round [a, b, c, d, e, f, g, h] (k, w) =
     (let T1 = h + Sigma1 e + Ch e f g + k + w;
          T2 = Sigma0 a + Maj a b c
      in [T1 + T2, a, b, c, d + T1, e, f, g])"
| "sha_round v kw = v"

definition sha_compress :: "32 word list \<Rightarrow> 32 word list \<Rightarrow> 32 word list" where
  \<comment> \<open>the hash value after one more block\<close>
  "sha_compress hs block =
     map2 (+) hs (foldl sha_round hs (zip sha_K (sha_schedule 48 block)))"

definition sha256 :: "byte list \<Rightarrow> byte list" where
  \<comment> \<open>\<open>hashlib.sha256(m).digest()\<close>: 32 bytes\<close>
  "sha256 m =
     (let p = sha_pad m
      in concat (map bytes_of_word32
                  (foldl sha_compress sha_H0 (sha_blocks (length p div 64) (be_words p)))))"

definition hex_of_byte :: "byte \<Rightarrow> string" where
  "hex_of_byte b = [''0123456789abcdef'' ! (unat b div 16), ''0123456789abcdef'' ! (unat b mod 16)]"

definition hexdigest :: "byte list \<Rightarrow> string" where
  \<comment> \<open>lowercase hexadecimal, two characters for each byte\<close>
  "hexdigest bs = concat (map hex_of_byte bs)"

subsection \<open>Parsed HTML (BeautifulSoup)\<close>

text \<open>
  \<open>BeautifulSoup(html, "html.parser")\<close> builds a tree from an HTML text, or rejects the
  text. The tree has text nodes, and elements with a tag name, the tokens of the \<open>class\<close>
  attribute, the other attributes and the children. Comments and other special strings,
  which \<open>get_text\<close> leaves out, are not part of the tree. The parser itself is a parameter
  (see below); the functions that search a tree are written out here.
\<close>

type_synonym html = string

datatype node = Text string | Elem string "string list" "(string \<times> string) list" "node list"

fun descendants :: "node \<Rightarrow> node list" where
  \<comment> \<open>\<open>tag.descendants\<close>: document order, the tag itself left out\<close>
  "descendants (Text s) = []"
| "descendants (Elem t cs as kids) = concat (map (\<lambda>k. k # descendants k) kids)"

definition class_matches :: "string \<Rightarrow> string list \<Rightarrow> bool" where
  \<comment> \<open>\<open>class_=c\<close>: one of the tokens is \<open>c\<close>, or the tokens joined by a space are \<open>c\<close>\<close>
  "class_matches c cs = (c \<in> set cs \<or> (cs \<noteq> [] \<and> join '' '' cs = c))"

definition is_tag :: "string \<Rightarrow> node \<Rightarrow> bool" where
  "is_tag name n = (case n of Elem t cs as kids \<Rightarrow> t = name | Text s \<Rightarrow> False)"

definition is_tag_class :: "string \<Rightarrow> string \<Rightarrow> node \<Rightarrow> bool" where
  "is_tag_class name c n =
     (case n of Elem t cs as kids \<Rightarrow> t = name \<and> class_matches c cs | Text s \<Rightarrow> False)"

definition get_attr :: "string \<Rightarrow> node \<Rightarrow> string option" where
  \<comment> \<open>\<open>tag.get(a)\<close>\<close>
  "get_attr a n = (case n of Elem t cs as kids \<Rightarrow> map_of as a | Text s \<Rightarrow> None)"

definition is_tag_with_attr :: "string \<Rightarrow> string \<Rightarrow> node \<Rightarrow> bool" where
  \<comment> \<open>a tag \<open>name\<close> that has the attribute, as in \<open>find("a", href=True)\<close>\<close>
  "is_tag_with_attr name a n = (is_tag name n \<and> get_attr a n \<noteq> None)"

definition find_all :: "(node \<Rightarrow> bool) \<Rightarrow> node \<Rightarrow> node list" where
  "find_all p n = filter p (descendants n)"

definition find_first :: "(node \<Rightarrow> bool) \<Rightarrow> node \<Rightarrow> node option" where
  \<comment> \<open>\<open>tag.find(...)\<close>: the first match, or None\<close>
  "find_first p n = (case find_all p n of [] \<Rightarrow> None | x # xs \<Rightarrow> Some x)"

definition stripped_strings :: "node \<Rightarrow> string list" where
  \<comment> \<open>the text nodes below a tag, each stripped, the empty ones dropped\<close>
  "stripped_strings n =
     filter (\<lambda>s. s \<noteq> [])
       (concat (map (\<lambda>d. case d of Text s \<Rightarrow> [py_strip s] | Elem t cs as kids \<Rightarrow> [])
                    (descendants n)))"

definition get_text :: "string \<Rightarrow> node \<Rightarrow> string" where
  \<comment> \<open>\<open>tag.get_text(sep, strip=True)\<close>\<close>
  "get_text sep n = join sep (stripped_strings n)"

subsection \<open>Dictionaries with string keys\<close>

type_synonym pydict = "(string \<times> string) list"

definition dict_set :: "pydict \<Rightarrow> string \<Rightarrow> string \<Rightarrow> pydict" where
  \<comment> \<open>\<open>d[k] = v\<close>: a key that is present keeps its place, a new key goes last\<close>
  "dict_set d k v =
     (if k \<in> set (map fst d) then map (\<lambda>(k', v'). if k' = k then (k', v) else (k', v')) d
      else d @ [(k, v)])"

definition dict_of_pairs :: "(string \<times> string) list \<Rightarrow> pydict" where
  \<comment> \<open>\<open>dict(pairs)\<close>\<close>
  "dict_of_pairs pairs = foldl (\<lambda>d (k, v). dict_set d k v) [] pairs"

definition dict_setdefault :: "pydict \<Rightarrow> string \<Rightarrow> string \<Rightarrow> pydict" where
  \<comment> \<open>\<open>d.setdefault(k, v)\<close>\<close>
  "dict_setdefault d k v = (if k \<in> set (map fst d) then d else d @ [(k, v)])"

definition dict_get :: "pydict \<Rightarrow> string \<Rightarrow> string option" where
  \<comment> \<open>\<open>d[k]\<close>; \<open>None\<close> is KeyError\<close>
  "dict_get d k = map_of d k"

subsection \<open>Errors, and the functions of other libraries taken as parameters\<close>

datatype error =
    ValueError
  | KeyError
  | RuntimeError
  | SystemExit nat
  | ParserRejectedMarkup
  | OtherError string

record response =
  status_code :: nat
  resp_text :: html

record lib =
  path_exists :: "string \<Rightarrow> bool"
    \<comment> \<open>\<open>os.path.exists\<close>\<close>
  read_file :: "string \<Rightarrow> error + html"
    \<comment> \<open>\<open>open(p).read()\<close>\<close>
  have_requests :: bool
    \<comment> \<open>whether \<open>import requests\<close> succeeded\<close>
  requests_get :: "string \<Rightarrow> error + response"
    \<comment> \<open>\<open>requests.get(url, headers=headers)\<close>\<close>
  beautiful_soup :: "html \<Rightarrow> error + node"
    \<comment> \<open>\<open>BeautifulSoup(html, "html.parser")\<close>\<close>
  urlparse_path :: "string \<Rightarrow> error + string"
    \<comment> \<open>\<open>urlparse(u).path\<close>\<close>
  urljoin :: "string \<Rightarrow> string \<Rightarrow> error + string"
  parse_query :: "string \<Rightarrow> error + (string \<times> string) list"
    \<comment> \<open>\<open>parse_qsl(urlparse(u).query)\<close>\<close>
  replace_query :: "string \<Rightarrow> pydict \<Rightarrow> string"
    \<comment> \<open>\<open>urlunparse(urlparse(u)._replace(query=urlencode(qs)))\<close>\<close>

section \<open>goodscraper.py\<close>

definition GOODREADS_BASE :: string where
  "GOODREADS_BASE = ''https://www.goodreads.com''"

definition resolve_input :: "(string \<Rightarrow> bool) \<Rightarrow> string \<Rightarrow> string" where
  \<comment> \<open>the first argument is \<open>os.path.exists\<close>\<close>
  "resolve_input exists arg =
     (if exists arg then arg
      else if str_isdigit arg
        then GOODREADS_BASE @ ''/review/list/'' @ arg @ ''?shelf=read''
      else if startswith arg ''http://'' \<or> startswith arg ''https://'' then arg
      else arg)"

definition extract_int_from_text :: "string option \<Rightarrow> int option" where
  "extract_int_from_text text =
     (case text of
        None \<Rightarrow> None
      | Some t \<Rightarrow>
          if t = [] then None
          else (case re_findall_digits (replace_char CHR '','' t) of
                  [] \<Rightarrow> None
                | d # _ \<Rightarrow> py_int d))"

definition extract_year_from_date :: "string option \<Rightarrow> int option" where
  "extract_year_from_date text =
     (case text of
        None \<Rightarrow> None
      | Some t \<Rightarrow>
          if t = [] then None
          else (case re_search_d4 t of
                  Some g \<Rightarrow> py_int g
                | None \<Rightarrow> None))"


definition or_empty :: "string option \<Rightarrow> string" where
  \<comment> \<open>\<open>x or ""\<close> for \<open>x\<close> a string or None\<close>
  "or_empty x = (case x of None \<Rightarrow> [] | Some s \<Rightarrow> if s = [] then [] else s)"

definition key_parts :: "string option \<Rightarrow> string option \<Rightarrow> string option \<Rightarrow> string option \<Rightarrow> string list" where
  \<comment> \<open>the list \<open>parts\<close> of \<open>compute_key_hash\<close>\<close>
  "key_parts source external_id title authors =
     [or_empty source, or_empty external_id, or_empty title, or_empty authors]"

definition compute_key_hash :: "string option \<Rightarrow> string option \<Rightarrow> string option \<Rightarrow> string option \<Rightarrow> string" where
  "compute_key_hash source external_id title authors =
     (let parts = key_parts source external_id title authors;
          raw = join ''|'' (map py_strip parts)
      in hexdigest (sha256 (utf8_encode raw)))"


definition load_html :: "lib \<Rightarrow> string \<Rightarrow> error + html" where
  "load_html L path_or_url =
     (if path_exists L path_or_url then read_file L path_or_url
      else if \<not> have_requests L then Inl RuntimeError
      else (case requests_get L path_or_url of
              Inl e \<Rightarrow> Inl e
            | Inr resp \<Rightarrow>
                if 400 \<le> status_code resp \<and> status_code resp < 600
                then Inl (SystemExit (status_code resp))
                else Inr (resp_text resp)))"

fun re_search_book_show :: "string \<Rightarrow> string option" where
  \<comment> \<open>\<open>re.search(r"/book/show/(\d+)", path)\<close>: group 1 of the leftmost match\<close>
  "re_search_book_show [] = None"
| "re_search_book_show (c # cs) =
     (if startswith (c # cs) ''/book/show/''
         \<and> (case drop 11 (c # cs) of d # ds \<Rightarrow> is_decimal d | [] \<Rightarrow> False)
      then Some (takeWhile is_decimal (drop 11 (c # cs)))
      else re_search_book_show cs)"

definition extract_external_id :: "lib \<Rightarrow> string \<Rightarrow> error + string option" where
  "extract_external_id L book_href =
     (if book_href = [] then Inr None
      else (case urlparse_path L book_href of
              Inl e \<Rightarrow> Inl e
            | Inr path \<Rightarrow> Inr (re_search_book_show path)))"

datatype json = JNull | JStr string | JInt int

type_synonym book = "(string \<times> json) list"

definition json_str :: "string option \<Rightarrow> json" where
  "json_str x = (case x of None \<Rightarrow> JNull | Some s \<Rightarrow> JStr s)"

definition json_int :: "int option \<Rightarrow> json" where
  "json_int x = (case x of None \<Rightarrow> JNull | Some i \<Rightarrow> JInt i)"

definition row_authors :: "node \<Rightarrow> string option" where
  \<comment> \<open>the author of a row (lines 197 to 204)\<close>
  "row_authors row =
     (case find_first (is_tag_class ''td'' ''field author'') row of
        None \<Rightarrow> None
      | Some author_td \<Rightarrow>
          (let author_links = find_all (is_tag ''a'') author_td
           in if author_links \<noteq> []
              then Some (join '', '' (map (get_text []) author_links))
              else (let t = get_text [] author_td in if t = [] then None else Some t)))"

definition row_cover_url :: "node \<Rightarrow> string option" where
  \<comment> \<open>the cover of a row (lines 207 to 212)\<close>
  "row_cover_url row =
     (case find_first (is_tag_class ''td'' ''field cover'') row of
        None \<Rightarrow> None
      | Some cover_td \<Rightarrow>
          (case find_first (is_tag ''img'') cover_td of
             None \<Rightarrow> None
           | Some img \<Rightarrow>
               (case get_attr ''src'' img of
                  None \<Rightarrow> None
                | Some src \<Rightarrow> if src = [] then None else Some src)))"

definition row_page_count :: "node \<Rightarrow> int option" where
  \<comment> \<open>the page count of a row (lines 215 to 219)\<close>
  "row_page_count row =
     (case find_first (is_tag_class ''td'' ''field num_pages'') row of
        None \<Rightarrow> None
      | Some pages_td \<Rightarrow> extract_int_from_text (Some (get_text '' '' pages_td)))"

definition row_published_year :: "node \<Rightarrow> int option" where
  \<comment> \<open>the year of a row (lines 222 to 226)\<close>
  "row_published_year row =
     (case find_first (is_tag_class ''td'' ''field date_pub'') row of
        None \<Rightarrow> None
      | Some date_pub_td \<Rightarrow> extract_year_from_date (Some (get_text '' '' date_pub_td)))"

definition book_of_row :: "lib \<Rightarrow> string option \<Rightarrow> node \<Rightarrow> error + book option" where
  \<comment> \<open>the body of the loop of \<open>parse_shelf\<close>; \<open>Inr None\<close> is \<open>continue\<close>\<close>
  "book_of_row L shelf_url row =
     (case find_first (is_tag_class ''td'' ''field title'') row of
        None \<Rightarrow> Inr None
      | Some title_td \<Rightarrow>
          (case find_first (is_tag_with_attr ''a'' ''href'') title_td of
             None \<Rightarrow> Inr None
           | Some title_link \<Rightarrow>
               (let title = get_text [] title_link;
                    book_href = or_empty (get_attr ''href'' title_link)
                in case (if or_empty shelf_url \<noteq> [] \<and> \<not> startswith book_href ''http''
                         then urljoin L GOODREADS_BASE book_href else Inr book_href) of
                     Inl e \<Rightarrow> Inl e
                   | Inr book_url \<Rightarrow>
                       (case extract_external_id L book_href of
                          Inl e \<Rightarrow> Inl e
                        | Inr external_id \<Rightarrow>
                            (let authors = row_authors row;
                                 cover_url = row_cover_url row;
                                 page_count = row_page_count row;
                                 published_year = row_published_year row;
                                 source = ''OTHER'';
                                 key_hash = compute_key_hash (Some source) external_id
                                              (Some title) authors
                             in Inr (Some [(''source'', JStr source),
                                           (''title'', JStr title),
                                           (''authors'', json_str authors),
                                           (''pageCount'', json_int page_count),
                                           (''coverUrl'', json_str cover_url)]))))))"

fun parse_rows :: "lib \<Rightarrow> string option \<Rightarrow> node list \<Rightarrow> book list \<Rightarrow> error + book list" where
  \<comment> \<open>the loop of \<open>parse_shelf\<close> over the rows, with the list \<open>books\<close>\<close>
  "parse_rows L shelf_url [] books = Inr books"
| "parse_rows L shelf_url (row # rows) books =
     (case book_of_row L shelf_url row of
        Inl e \<Rightarrow> Inl e
      | Inr None \<Rightarrow> parse_rows L shelf_url rows books
      | Inr (Some book_obj) \<Rightarrow> parse_rows L shelf_url rows (books @ [book_obj]))"

definition parse_shelf :: "lib \<Rightarrow> html \<Rightarrow> string option \<Rightarrow> error + book list" where
  "parse_shelf L html shelf_url =
     (case beautiful_soup L html of
        Inl e \<Rightarrow> Inl e
      | Inr soup \<Rightarrow>
          parse_rows L shelf_url (find_all (is_tag_class ''tr'' ''bookalike'') soup) [])"

definition page_query :: "(string \<times> string) list \<Rightarrow> nat \<Rightarrow> pydict" where
  \<comment> \<open>the dictionary \<open>qs\<close> of one iteration (lines 282 to 287)\<close>
  "page_query pairs page =
     dict_set (dict_setdefault (dict_of_pairs pairs) ''per_page'' ''10'') ''page'' (py_str_nat page)"

partial_function (option) paginate ::
  "lib \<Rightarrow> string \<Rightarrow> nat \<Rightarrow> book list \<Rightarrow> string list
     \<Rightarrow> ((error + book list) \<times> string list) option"
where
  \<comment> \<open>the \<open>while True\<close> loop of \<open>main\<close> from the state \<open>page\<close>, \<open>all_books\<close>; the last
      argument and the second component of the result list the URLs given to
      \<open>load_html\<close> so far; \<open>None\<close> is a loop that never ends\<close>
  "paginate L resolved page all_books fetched =
     (case parse_query L resolved of
        Inl e \<Rightarrow> Some (Inl e, fetched)
      | Inr pairs \<Rightarrow>
          (let qs = page_query pairs page;
               page_url = replace_query L resolved qs
           in case load_html L page_url of
                Inl e \<Rightarrow> Some (Inl e, fetched @ [page_url])
              | Inr html \<Rightarrow>
                  (case parse_shelf L html (Some page_url) of
                     Inl e \<Rightarrow> Some (Inl e, fetched @ [page_url])
                   | Inr page_books \<Rightarrow>
                       if page_books = [] then Some (Inr all_books, fetched @ [page_url])
                       else (case dict_get qs ''per_page'' of
                               None \<Rightarrow> Some (Inl KeyError, fetched @ [page_url])
                             | Some v \<Rightarrow>
                                 (case py_int v of
                                    None \<Rightarrow>
                                      Some (Inr (all_books @ page_books), fetched @ [page_url])
                                  | Some per_page \<Rightarrow>
                                      if int (length page_books) < per_page
                                      then Some (Inr (all_books @ page_books),
                                                 fetched @ [page_url])
                                      else paginate L resolved (page + 1)
                                             (all_books @ page_books)
                                             (fetched @ [page_url]))))))"

definition load_and_parse :: "lib \<Rightarrow> string \<Rightarrow> (error + book list) \<times> string list" where
  \<comment> \<open>one \<open>load_html\<close> and one \<open>parse_shelf\<close>, as in the first and the last branch of
      \<open>main\<close>\<close>
  "load_and_parse L resolved =
     (case load_html L resolved of
        Inl e \<Rightarrow> (Inl e, [resolved])
      | Inr html \<Rightarrow> (parse_shelf L html (Some resolved), [resolved]))"

definition main :: "lib \<Rightarrow> string \<Rightarrow> ((error + book list) \<times> string list) option" where
  \<comment> \<open>\<open>main\<close> up to the list \<open>books\<close> that it prints\<close>
  "main L shelf =
     (let resolved = resolve_input (path_exists L) shelf
      in if path_exists L resolved then Some (load_and_parse L resolved)
         else if contains resolved ''goodreads.com/review/list''
           then paginate L resolved 1 [] []
         else Some (load_and_parse L resolved))"

declare paginate.simps [code]

section \<open>The statements of the specification\<close>

definition last_four_digits :: "string \<Rightarrow> string option" where
  \<comment> \<open>the last run of four decimal digits of a text, as the specification words it\<close>
  "last_four_digits t = map_option rev (re_search_d4 (rev t))"

definition spec_resolve :: "(string \<Rightarrow> bool) \<Rightarrow> string \<Rightarrow> string" where
  \<comment> \<open>the four rules of the resolver as the specification words them: the second rule is
      for a string that consists entirely of decimal digits\<close>
  "spec_resolve exists raw =
     (if exists raw then raw
      else if raw \<noteq> [] \<and> list_all is_decimal raw
        then ''https://www.goodreads.com/review/list/'' @ raw @ ''?shelf=read''
      else if startswith raw ''http://'' \<or> startswith raw ''https://'' then raw
      else raw)"

definition trim_field :: "string option \<Rightarrow> string" where
  \<comment> \<open>a field of the identity quadruple: the empty string when absent, trimmed\<close>
  "trim_field x = py_strip (case x of None \<Rightarrow> [] | Some s \<Rightarrow> s)"

definition key_string :: "string option \<Rightarrow> string option \<Rightarrow> string option \<Rightarrow> string option \<Rightarrow> string" where
  \<comment> \<open>the four trimmed fields in the order source, externalId, title, authors, with one
      separator between two fields\<close>
  "key_string source external_id title authors =
     trim_field source @ ''|'' @ trim_field external_id @ ''|'' @ trim_field title
       @ ''|'' @ trim_field authors"

definition data_model_fields :: "string list" where
  \<comment> \<open>the fields of a BookRecord in the data model of the specification\<close>
  "data_model_fields =
     [''source'', ''externalId'', ''title'', ''authors'', ''pageCount'', ''publishedYear'',
      ''coverUrl'', ''keyHash'']"

definition title_link :: "node \<Rightarrow> node option" where
  \<comment> \<open>the hyperlink of the title cell of a row, if the row has both\<close>
  "title_link row =
     (case find_first (is_tag_class ''td'' ''field title'') row of
        None \<Rightarrow> None
      | Some title_td \<Rightarrow> find_first (is_tag_with_attr ''a'' ''href'') title_td)"

definition entry_rows :: "node \<Rightarrow> node list" where
  \<comment> \<open>the rows of a page that stand for one shelf entry\<close>
  "entry_rows soup = find_all (is_tag_class ''tr'' ''bookalike'') soup"

definition per_page_text :: "(string \<times> string) list \<Rightarrow> string" where
  \<comment> \<open>the text of the page size: the last \<open>per_page\<close> parameter of the URL, 10 without one\<close>
  "per_page_text pairs = (case map_of (rev pairs) ''per_page'' of None \<Rightarrow> ''10'' | Some v \<Rightarrow> v)"

definition fetch_page :: "lib \<Rightarrow> string \<Rightarrow> nat \<Rightarrow> error + string \<times> book list" where
  \<comment> \<open>the URL and the records of page \<open>page\<close>: the first two steps of an iteration\<close>
  "fetch_page L resolved page =
     (case parse_query L resolved of
        Inl e \<Rightarrow> Inl e
      | Inr pairs \<Rightarrow>
          (let page_url = replace_query L resolved (page_query pairs page)
           in case load_html L page_url of
                Inl e \<Rightarrow> Inl e
              | Inr html \<Rightarrow>
                  (case parse_shelf L html (Some page_url) of
                     Inl e \<Rightarrow> Inl e
                   | Inr page_books \<Rightarrow> Inr (page_url, page_books))))"

definition emitted_record :: "node \<Rightarrow> node \<Rightarrow> book" where
  \<comment> \<open>the record that \<open>parse_shelf\<close> builds for a row with the given title link\<close>
  "emitted_record row link =
     [(''source'', JStr ''OTHER''), (''title'', JStr (get_text [] link)),
      (''authors'', json_str (row_authors row)), (''pageCount'', json_int (row_page_count row)),
      (''coverUrl'', json_str (row_cover_url row))]"

definition link_error :: "lib \<Rightarrow> string option \<Rightarrow> node \<Rightarrow> error option" where
  \<comment> \<open>the error, if any, of the two URL functions called on the address of a title link\<close>
  "link_error L shelf_url link =
     (let book_href = or_empty (get_attr ''href'' link)
      in case (if or_empty shelf_url \<noteq> [] \<and> \<not> startswith book_href ''http''
               then urljoin L GOODREADS_BASE book_href else Inr book_href) of
           Inl e \<Rightarrow> Some e
         | Inr book_url \<Rightarrow>
             (case extract_external_id L book_href of Inl e \<Rightarrow> Some e | Inr x \<Rightarrow> None))"

definition row_result :: "lib \<Rightarrow> string option \<Rightarrow> node \<Rightarrow> error + book option" where
  \<comment> \<open>what a row contributes: nothing without a title link, else an error or a record\<close>
  "row_result L shelf_url row =
     (case title_link row of
        None \<Rightarrow> Inr None
      | Some link \<Rightarrow>
          (case link_error L shelf_url link of
             Some e \<Rightarrow> Inl e
           | None \<Rightarrow> Inr (Some (emitted_record row link))))"

subsection \<open>A sample shelf\<close>

definition example_row :: "string \<Rightarrow> node list \<Rightarrow> node" where
  \<comment> \<open>a row of a shelf page with the given title text and author cell\<close>
  "example_row title author_kids =
     Elem ''tr'' [''bookalike'', ''review''] [(''id'', ''review_1'')]
       [Elem ''td'' [''field'', ''cover''] []
          [Elem ''img'' [] [(''src'', ''https://i.gr-assets.com/1.jpg'')] []],
        Elem ''td'' [''field'', ''title''] []
          [Text ''title '',
           Elem ''a'' [] [(''href'', ''/book/show/364549.A_Letter'')] [Text title]],
        Elem ''td'' [''field'', ''author''] [] author_kids,
        Elem ''td'' [''field'', ''num_pages''] []
          [Text ''num pages'', Elem ''div'' [] [] [Text '' 1,024 pp'']],
        Elem ''td'' [''field'', ''date_pub''] []
          [Text ''date pub'', Elem ''div'' [] [] [Text '' Mar 18, 2025 '']]]"

definition example_book :: "string \<Rightarrow> json \<Rightarrow> book" where
  \<comment> \<open>the record of such a row\<close>
  "example_book title authors =
     [(''source'', JStr ''OTHER''), (''title'', JStr title), (''authors'', authors),
      (''pageCount'', JInt 1024), (''coverUrl'', JStr ''https://i.gr-assets.com/1.jpg'')]"

definition short_row :: node where
  \<comment> \<open>a row with a title link and nothing else\<close>
  "short_row =
     Elem ''tr'' [''bookalike''] []
       [Elem ''td'' [''field'', ''title''] [] [Elem ''a'' [] [(''href'', ''/book/show/1'')] [Text ''T'']]]"

definition short_book :: book where
  "short_book =
     [(''source'', JStr ''OTHER''), (''title'', JStr ''T''), (''authors'', JNull),
      (''pageCount'', JNull), (''coverUrl'', JNull)]"

definition table_doc :: "node list \<Rightarrow> node" where
  \<comment> \<open>the tree of a document that is one table of the given rows\<close>
  "table_doc rows = Elem ''[document]'' [] [] [Elem ''table'' [] [] rows]"

definition table_html :: "html \<Rightarrow> html" where
  \<comment> \<open>the text of such a document, from the text of its rows\<close>
  "table_html rows = ''<table>'' @ rows @ ''</table>''"

definition example_row_html :: "string \<Rightarrow> html \<Rightarrow> html" where
  \<comment> \<open>the text of \<open>example_row\<close>, from the title text and the text of the author cell\<close>
  "example_row_html title author_html =
     ''<tr id='review_1' class='bookalike review'>''
     @ ''<td class='field cover'><img src='https://i.gr-assets.com/1.jpg'/></td>''
     @ ''<td class='field title'>title <a href='/book/show/364549.A_Letter'>'' @ title
     @ ''</a></td><td class='field author'>'' @ author_html
     @ ''</td><td class='field num_pages'>num pages<div> 1,024 pp</div></td>''
     @ ''<td class='field date_pub'>date pub<div> Mar 18, 2025 </div></td></tr>''"

definition short_row_html :: html where
  \<comment> \<open>the text of \<open>short_row\<close>\<close>
  "short_row_html =
     ''<tr class='bookalike'><td class='field title'><a href='/book/show/1'>T</a></td></tr>''"

definition example_page :: "nat \<Rightarrow> node" where
  \<comment> \<open>the tree of a page with \<open>n\<close> rows\<close>
  "example_page n = table_doc (replicate n short_row)"

definition page_html :: "nat \<Rightarrow> html" where
  \<comment> \<open>the text of a page with \<open>n\<close> rows\<close>
  "page_html n = table_html (concat (replicate n short_row_html))"

definition page_trees :: "nat list \<Rightarrow> (html \<times> node) list" where
  \<comment> \<open>the texts of the pages with these numbers of rows, each with its tree\<close>
  "page_trees ns = map (\<lambda>n. (page_html n, example_page n)) ns"

definition mixed_page :: node where
  \<comment> \<open>a page with a header row, two entries and two rows that are no entries\<close>
  "mixed_page =
     table_doc
       [Elem ''tr'' [] [] [Elem ''th'' [] [] [Text ''title'']],
        short_row,
        Elem ''tr'' [''bookalike''] [] [Elem ''td'' [''field'', ''title''] [] [Text ''no link'']],
        Elem ''tr'' [''bookalike''] [] [Elem ''td'' [''field'', ''author''] [] [Text ''no title'']],
        short_row]"

definition mixed_html :: html where
  \<comment> \<open>the text of \<open>mixed_page\<close>\<close>
  "mixed_html =
     table_html
       (''<tr><th>title</th></tr>'' @ short_row_html
        @ ''<tr class='bookalike'><td class='field title'>no link</td></tr>''
        @ ''<tr class='bookalike'><td class='field author'>no title</td></tr>''
        @ short_row_html)"

definition letter_page :: node where
  \<comment> \<open>a page with one full row\<close>
  "letter_page =
     table_doc [example_row ''A Letter''
                  [Elem ''a'' [] [(''href'', ''/author/show/1'')] [Text ''Locke, John'']]]"

definition letter_html :: html where
  \<comment> \<open>the text of \<open>letter_page\<close>\<close>
  "letter_html =
     table_html (example_row_html ''A Letter'' ''<a href='/author/show/1'>Locke, John</a>'')"



definition example_lib ::
  "(string \<Rightarrow> html) \<Rightarrow> (html \<times> node) list \<Rightarrow> (string \<times> string) list \<Rightarrow> lib" where
  \<comment> \<open>a site that serves the text \<open>site u\<close> at the address \<open>u\<close>, a parser that knows the
      trees of the texts in \<open>trees\<close>, and a shelf URL with the query parameters \<open>pairs\<close>\<close>
  "example_lib site trees pairs = \<lparr>
     path_exists = (\<lambda>p. False),
     read_file = (\<lambda>p. Inl (OtherError ''FileNotFoundError'')),
     have_requests = True,
     requests_get = (\<lambda>u. Inr \<lparr>status_code = 200, resp_text = site u\<rparr>),
     beautiful_soup = (\<lambda>h. case map_of trees h of
                              None \<Rightarrow> Inl ParserRejectedMarkup
                            | Some t \<Rightarrow> Inr t),
     urlparse_path = (\<lambda>u. Inr (takeWhile (\<lambda>c. c \<noteq> CHR ''?'') u)),
     urljoin = (\<lambda>b u. Inr (b @ u)),
     parse_query = (\<lambda>u. Inr pairs),
     replace_query = (\<lambda>u qs. takeWhile (\<lambda>c. c \<noteq> CHR ''?'') u @ ''?''
                        @ join ''&'' (map (\<lambda>(k, v). k @ ''='' @ v) qs))\<rparr>"

definition three_pages :: "string \<Rightarrow> html" where
  \<comment> \<open>a shelf of 24 books served 10 to a page\<close>
  "three_pages u =
     (if u = ''https://www.goodreads.com/review/list/1?shelf=read&per_page=10&page=1''
        then page_html 10
      else if u = ''https://www.goodreads.com/review/list/1?shelf=read&per_page=10&page=2''
        then page_html 10
      else if u = ''https://www.goodreads.com/review/list/1?shelf=read&per_page=10&page=3''
        then page_html 4
      else page_html 0)"

definition two_pages :: "string \<Rightarrow> html" where
  \<comment> \<open>a shelf of 25 books served 20 to a page\<close>
  "two_pages u =
     (if u = ''https://www.goodreads.com/review/list/1?per_page=20&page=1'' then page_html 20
      else if u = ''https://www.goodreads.com/review/list/1?per_page=20&page=2'' then page_html 5
      else page_html 0)"

section \<open>Evaluation rules\<close>

lemmas str_defs =
  is_decimal_def py_isdigit_char_def py_isspace_def int_isspace_def str_isdigit_def
  startswith_def lstrip_by_def rstrip_by_def py_strip_def replace_char_def

lemmas int_defs =
  digit_val_def digits_val_def max_str_digits_def py_int_def py_str_nat_def digit_char_def

lemmas dom_defs =
  class_matches_def is_tag_def is_tag_class_def get_attr_def is_tag_with_attr_def
  find_all_def find_first_def stripped_strings_def get_text_def

lemmas row_defs =
  row_authors_def row_cover_url_def row_page_count_def row_published_year_def
  extract_int_from_text_def extract_year_from_date_def re_findall_digits_def
  extract_external_id_def or_empty_def json_str_def json_int_def

section \<open>Dictionaries and the query of a page\<close>

lemma map_of_upd_map:
  "map_of (map (\<lambda>(k', v'). if k' = k then (k', v) else (k', v')) d) x
     = (if x = k then (if map_of d k = None then None else Some v) else map_of d x)"
  by (induction d) auto

lemma map_of_dict_set: "map_of (dict_set d k v) = (map_of d)(k \<mapsto> v)"
proof (cases "k \<in> set (map fst d)")
  case True
  then have "map_of d k \<noteq> None" by (simp add: map_of_eq_None_iff)
  with True show ?thesis by (auto simp: dict_set_def fun_eq_iff map_of_upd_map simp del: set_map)
next
  case False
  then have "map_of d k = None" by (simp add: map_of_eq_None_iff)
  with False show ?thesis
    by (auto simp: dict_set_def fun_eq_iff map_add_def simp del: set_map split: option.splits)
qed

lemma keys_dict_set: "map fst (dict_set d k v) = (if k \<in> set (map fst d) then map fst d else map fst d @ [k])"
  by (induction d) (auto simp: dict_set_def)

lemma distinct_dict_set: "distinct (map fst d) \<Longrightarrow> distinct (map fst (dict_set d k v))"
  by (simp add: keys_dict_set)

lemma dict_of_pairs_snoc: "dict_of_pairs (ps @ [(k, v)]) = dict_set (dict_of_pairs ps) k v"
  by (simp add: dict_of_pairs_def)

lemma map_of_dict_of_pairs: "map_of (dict_of_pairs ps) = map_of (rev ps)"
proof (induction ps rule: rev_induct)
  case Nil
  show ?case by (simp add: dict_of_pairs_def)
next
  case (snoc p ps)
  obtain k v where p: "p = (k, v)" by (cases p)
  show ?case using snoc by (simp add: p dict_of_pairs_snoc map_of_dict_set)
qed

lemma distinct_dict_of_pairs: "distinct (map fst (dict_of_pairs ps))"
proof (induction ps rule: rev_induct)
  case Nil
  show ?case by (simp add: dict_of_pairs_def)
next
  case (snoc p ps)
  obtain k v where p: "p = (k, v)" by (cases p)
  show ?case using snoc by (simp add: p dict_of_pairs_snoc distinct_dict_set)
qed

lemma keys_dict_of_pairs: "set (map fst (dict_of_pairs ps)) = fst ` set ps"
proof (induction ps rule: rev_induct)
  case Nil
  show ?case by (simp add: dict_of_pairs_def)
next
  case (snoc p ps)
  obtain k v where p: "p = (k, v)" by (cases p)
  show ?case using snoc by (auto simp add: p dict_of_pairs_snoc keys_dict_set)
qed

lemma dict_of_pairs_distinct: "distinct (map fst ps) \<Longrightarrow> dict_of_pairs ps = ps"
proof (induction ps rule: rev_induct)
  case Nil
  show ?case by (simp add: dict_of_pairs_def)
next
  case (snoc p ps)
  obtain k v where p: "p = (k, v)" by (cases p)
  from snoc have "dict_of_pairs ps = ps" and "k \<notin> fst ` set ps" by (auto simp: p)
  then show ?case by (simp add: p dict_of_pairs_snoc dict_set_def)
qed

lemma map_of_dict_setdefault:
  "map_of (dict_setdefault d k v) = (\<lambda>x. if x = k \<and> map_of d k = None then Some v else map_of d x)"
proof (cases "k \<in> set (map fst d)")
  case True
  then have "map_of d k \<noteq> None" by (simp add: map_of_eq_None_iff)
  with True show ?thesis by (auto simp: dict_setdefault_def fun_eq_iff simp del: set_map)
next
  case False
  then have "map_of d k = None" by (simp add: map_of_eq_None_iff)
  with False show ?thesis
    by (auto simp: dict_setdefault_def fun_eq_iff map_add_def simp del: set_map split: option.splits)
qed

lemma keys_dict_setdefault: "map fst (dict_setdefault d k v) = (if k \<in> set (map fst d) then map fst d else map fst d @ [k])"
  by (simp add: dict_setdefault_def)

lemma per_page_lookup: "dict_get (page_query pairs page) ''per_page'' = Some (per_page_text pairs)"
  by (simp add: dict_get_def page_query_def map_of_dict_set map_of_dict_setdefault map_of_dict_of_pairs per_page_text_def split: option.splits)

lemma page_lookup: "dict_get (page_query pairs page) ''page'' = Some (py_str_nat page)"
  by (simp add: dict_get_def page_query_def map_of_dict_set)

lemma other_lookup: "k \<noteq> ''page'' \<Longrightarrow> k \<noteq> ''per_page'' \<Longrightarrow> dict_get (page_query pairs page) k = map_of (rev pairs) k"
  by (simp add: dict_get_def page_query_def map_of_dict_set map_of_dict_setdefault map_of_dict_of_pairs)

lemma distinct_page_query: "distinct (map fst (page_query pairs page))"
  unfolding page_query_def
  by (intro distinct_dict_set) (simp add: keys_dict_setdefault distinct_dict_of_pairs)

lemma keys_page_query: "set (map fst (page_query pairs page)) = fst ` set pairs \<union> {''page'', ''per_page''}"
  unfolding page_query_def
  by (auto simp add: keys_dict_set keys_dict_setdefault keys_dict_of_pairs simp del: set_map split: if_splits)

lemma filter_upd_map_other:
  "\<not> P k \<Longrightarrow> filter (\<lambda>(x, y). P x) (map (\<lambda>(k', v'). if k' = k then (k', v) else (k', v')) d)
     = filter (\<lambda>(x, y). P x) d"
  by (induction d) (auto split: if_splits)

lemma filter_dict_set_other: "\<not> P k \<Longrightarrow> filter (\<lambda>(x, y). P x) (dict_set d k v) = filter (\<lambda>(x, y). P x) d"
  by (simp add: dict_set_def filter_upd_map_other del: set_map)

lemma filter_dict_setdefault_other: "\<not> P k \<Longrightarrow> filter (\<lambda>(x, y). P x) (dict_setdefault d k v) = filter (\<lambda>(x, y). P x) d"
  by (auto simp: dict_setdefault_def)

lemma others_page_query:
  "distinct (map fst pairs) \<Longrightarrow>
   filter (\<lambda>(k, v). k \<noteq> ''page'' \<and> k \<noteq> ''per_page'') (page_query pairs page)
     = filter (\<lambda>(k, v). k \<noteq> ''page'' \<and> k \<noteq> ''per_page'') pairs"
  unfolding page_query_def
  by (simp add: filter_dict_set_other [where P = "\<lambda>k. k \<noteq> ''page'' \<and> k \<noteq> ''per_page''"] filter_dict_setdefault_other [where P = "\<lambda>k. k \<noteq> ''page'' \<and> k \<noteq> ''per_page''"] dict_of_pairs_distinct)

section \<open>One iteration of the pagination loop\<close>

lemma paginate_step:
  assumes "parse_query L resolved = Inr pairs"
    and "fetch_page L resolved page = Inr (url, recs)"
  shows "paginate L resolved page all_books fetched =
     (if recs = [] then Some (Inr all_books, fetched @ [url])
      else case py_int (per_page_text pairs) of
             None \<Rightarrow> Some (Inr (all_books @ recs), fetched @ [url])
           | Some per_page \<Rightarrow>
               if int (length recs) < per_page then Some (Inr (all_books @ recs), fetched @ [url])
               else paginate L resolved (page + 1) (all_books @ recs) (fetched @ [url]))"
  using assms
  by (subst paginate.simps) (auto simp add: fetch_page_def Let_def per_page_lookup split: sum.splits option.splits)

section \<open>Decimal text of a number\<close>

lemma digit_val_digit_char: "d < 10 \<Longrightarrow> digit_val (digit_char d) = int d"
proof -
  assume "d < 10"
  then have "d \<in> {0, 1, 2, 3, 4, 5, 6, 7, 8, 9}" by auto
  then show ?thesis by (auto simp: digit_val_def digit_char_def)
qed

lemma digits_val_snoc: "digits_val (ds @ [c]) = 10 * digits_val ds + digit_val c"
  by (simp add: digits_val_def)

lemma digits_val_nat_digits: "n < 10 ^ k \<Longrightarrow> digits_val (nat_digits k n) = int n"
proof (induction k arbitrary: n)
  case 0
  then show ?case by (simp add: digits_val_def)
next
  case (Suc k)
  show ?case
  proof (cases "n < 10")
    case True
    then show ?thesis using digit_val_digit_char [of n] by (simp add: digits_val_def)
  next
    case False
    from Suc.prems have "n div 10 < 10 ^ k" by (simp add: less_mult_imp_div_less mult.commute)
    then have "digits_val (nat_digits k (n div 10)) = int (n div 10)" by (rule Suc.IH)
    moreover have "digit_val (digit_char (n mod 10)) = int (n mod 10)"
      by (rule digit_val_digit_char) simp
    ultimately show ?thesis using False by (simp add: digits_val_snoc zdiv_int zmod_int)
  qed
qed

lemma digits_val_py_str_nat: "digits_val (py_str_nat n) = int n"
proof -
  have "n < 2 ^ n" by (rule less_exp)
  also have "(2::nat) ^ n \<le> 10 ^ n" by (rule power_mono) simp_all
  also have "(10::nat) ^ n \<le> 10 ^ Suc n" by simp
  finally show ?thesis unfolding py_str_nat_def by (rule digits_val_nat_digits)
qed

section \<open>The sample shelf\<close>

lemma short_row_book:
  "book_of_row (example_lib site trees pairs) u short_row = Inr (Some short_book)"
  by (simp add: book_of_row_def short_row_def short_book_def example_lib_def dom_defs row_defs str_defs
      GOODREADS_BASE_def Let_def)

lemma parse_rows_short:
  "parse_rows (example_lib site trees pairs) u (replicate n short_row) acc
     = Inr (acc @ replicate n short_book)"
  by (induction n arbitrary: acc) (simp_all add: short_row_book replicate_append_same)

lemma descendants_short_row: "filter (is_tag_class ''tr'' ''bookalike'') (descendants short_row) = []"
  by (simp add: short_row_def dom_defs)

lemma rows_example_page: "find_all (is_tag_class ''tr'' ''bookalike'') (example_page n) = replicate n short_row"
proof -
  have "filter (is_tag_class ''tr'' ''bookalike'') (concat (map (\<lambda>k. k # descendants k) (replicate n short_row))) = replicate n short_row"
  proof (induction n)
    case 0 show ?case by simp
  next
    case (Suc n)
    have "is_tag_class ''tr'' ''bookalike'' short_row" by (simp add: short_row_def dom_defs)
    with Suc show ?case by (simp add: descendants_short_row)
  qed
  then show ?thesis by (simp add: find_all_def example_page_def table_doc_def is_tag_class_def)
qed

lemma length_concat_replicate: "length (concat (replicate n xs)) = n * length xs"
  by (induction n) simp_all

lemma page_html_eq_iff: "page_html m = page_html n \<longleftrightarrow> m = n"
proof
  assume "page_html m = page_html n"
  then have "length (page_html m) = length (page_html n)" by simp
  then show "m = n"
    by (simp add: page_html_def table_html_def length_concat_replicate short_row_html_def)
qed simp

lemma map_of_page_trees: "n \<in> set ns \<Longrightarrow> map_of (page_trees ns) (page_html n) = Some (example_page n)"
  by (induction ns) (auto simp add: page_trees_def page_html_eq_iff)

lemma soup_example_page:
  "n \<in> set ns \<Longrightarrow> beautiful_soup (example_lib site (page_trees ns) pairs) (page_html n) = Inr (example_page n)"
  by (simp add: example_lib_def map_of_page_trees)

lemma soup_one_page: "beautiful_soup (example_lib site [(h, t)] pairs) h = Inr t"
  by (simp add: example_lib_def)

lemma parse_example_page:
  "n \<in> set ns \<Longrightarrow>
   parse_shelf (example_lib site (page_trees ns) pairs) (page_html n) u = Inr (replicate n short_book)"
  by (simp add: parse_shelf_def soup_example_page rows_example_page parse_rows_short)

lemma load_example: "load_html (example_lib site trees pairs) u = Inr (site u)"
  by (simp add: load_html_def example_lib_def)

lemma parse_query_example: "parse_query (example_lib site trees pairs) resolved = Inr pairs"
  by (simp add: example_lib_def)

lemma fetch_example_page:
  "site (replace_query (example_lib site (page_trees ns) pairs) resolved (page_query pairs page)) = page_html n
   \<Longrightarrow> n \<in> set ns \<Longrightarrow>
   fetch_page (example_lib site (page_trees ns) pairs) resolved page =
     Inr (replace_query (example_lib site (page_trees ns) pairs) resolved (page_query pairs page),
          replicate n short_book)"
  by (simp add: fetch_page_def Let_def load_example parse_example_page parse_query_example)

lemma replace_query_example:
  "replace_query (example_lib site trees pairs) resolved qs =
     takeWhile (\<lambda>c. c \<noteq> CHR ''?'') resolved @ ''?'' @ join ''&'' (map (\<lambda>(k, v). k @ ''='' @ v) qs)"
  by (simp add: example_lib_def)

lemma py_str_nat_digit: "n < 10 \<Longrightarrow> py_str_nat n = [digit_char n]"
  by (simp add: py_str_nat_def)

lemmas query_defs = page_query_def dict_set_def dict_setdefault_def dict_of_pairs_def per_page_text_def

section \<open>Rows and records\<close>

lemma book_of_row_eq: "book_of_row L shelf_url row = row_result L shelf_url row"
  by (simp add: book_of_row_def row_result_def title_link_def link_error_def emitted_record_def Let_def
      split: option.splits sum.splits)

lemma parse_rows_Inr:
  "parse_rows L u rows acc = Inr books \<Longrightarrow>
   books = acc @ List.map_filter (\<lambda>row. map_option (emitted_record row) (title_link row)) rows"
proof (induction rows arbitrary: acc)
  case Nil
  then show ?case by (simp add: List.map_filter_simps)
next
  case (Cons row rows)
  from Cons.prems show ?case
    by (auto simp add: book_of_row_eq row_result_def List.map_filter_simps
        split: option.splits sum.splits dest!: Cons.IH)
qed



lemma set_map_filter: "set (List.map_filter f xs) = {y. \<exists>x \<in> set xs. f x = Some y}"
  by (induction xs) (auto simp: List.map_filter_simps split: option.splits)

section \<open>Trimming\<close>

text \<open>
  \<open>strip\<close> removes white space at both ends and nothing else: what is left neither
  starts nor ends with white space.
\<close>

lemma rstrip_split: "xs = rev (dropWhile P (rev xs)) @ rev (takeWhile P (rev xs))"
proof -
  have "rev (rev xs) = rev (takeWhile P (rev xs) @ dropWhile P (rev xs))"
    by (simp only: takeWhile_dropWhile_id)
  then show ?thesis by (simp only: rev_rev_ident rev_append)
qed

lemma py_strip_decomposition:
  "\<exists>l r. s = l @ py_strip s @ r \<and> list_all py_isspace l \<and> list_all py_isspace r"
proof -
  let ?t = "dropWhile py_isspace s"
  have t: "?t = py_strip s @ rev (takeWhile py_isspace (rev ?t))"
    unfolding py_strip_def lstrip_by_def rstrip_by_def by (rule rstrip_split)
  have "s = takeWhile py_isspace s @ ?t" by simp
  with t have "s = takeWhile py_isspace s @ py_strip s @ rev (takeWhile py_isspace (rev ?t))"
    by simp
  moreover have "list_all py_isspace (takeWhile py_isspace s)"
    by (simp add: list_all_iff) (meson set_takeWhileD)
  moreover have "list_all py_isspace (rev (takeWhile py_isspace (rev ?t)))"
    by (simp add: list_all_iff) (meson set_takeWhileD)
  ultimately show ?thesis by blast
qed

lemma py_strip_ends:
  "py_strip s \<noteq> [] \<Longrightarrow> \<not> py_isspace (hd (py_strip s)) \<and> \<not> py_isspace (last (py_strip s))"
proof -
  assume ne: "py_strip s \<noteq> []"
  let ?t = "dropWhile py_isspace s"
  let ?u = "dropWhile py_isspace (rev ?t)"
  have p: "py_strip s = rev ?u" by (simp add: py_strip_def lstrip_by_def rstrip_by_def)
  with ne have u: "?u \<noteq> []" by simp
  then have "\<not> py_isspace (hd ?u)" by (rule hd_dropWhile)
  then have last: "\<not> py_isspace (last (py_strip s))" using u by (simp add: p last_rev)
  have t: "?t = py_strip s @ rev (takeWhile py_isspace (rev ?t))"
    unfolding p by (rule rstrip_split)
  have "t = p @ r \<Longrightarrow> p \<noteq> [] \<Longrightarrow> t \<noteq> []" for t p r :: string
    by simp
  from this [OF t ne] have tne: "?t \<noteq> []" .
  then have "\<not> py_isspace (hd ?t)" by (rule hd_dropWhile)
  moreover from t ne have "hd ?t = hd (py_strip s)" by (metis hd_append2)
  ultimately show ?thesis using last by simp
qed

section \<open>Encoding, key string and digest\<close>

lemma of_char_less_256: "(of_char c :: nat) < 256"
proof -
  have "(of_char c :: nat) mod 256 = of_char c" by simp
  then show ?thesis by (metis mod_less_divisor zero_less_numeral)
qed

lemma byte_of_nat_eq: "a < 256 \<Longrightarrow> b < 256 \<Longrightarrow> (of_nat a :: byte) = of_nat b \<Longrightarrow> a = b"
  by (simp add: word_of_nat_eq_iff take_bit_eq_mod)

lemma utf8_char_append_inj:
  assumes "utf8_char c @ r = utf8_char d @ r'"
  shows "c = d \<and> r = r'"
proof -
  let ?n = "of_char c :: nat" and ?m = "of_char d :: nat"
  have n: "?n < 256" and m: "?m < 256" by (rule of_char_less_256)+
  have "?n = ?m \<and> r = r'"
  proof (cases "?n < 128")
    case n1: True
    show ?thesis
    proof (cases "?m < 128")
      case True
      with n1 assms have eq: "(of_nat ?n :: byte) = of_nat ?m" and r: "r = r'"
        by (simp_all add: utf8_char_def Let_def)
      from eq have "?n = ?m" by (rule byte_of_nat_eq [OF n m])
      with r show ?thesis by blast
    next
      case False
      with n1 assms have "(of_nat ?n :: byte) = of_nat (192 + ?m div 64)"
        by (simp add: utf8_char_def Let_def)
      moreover from m have "192 + ?m div 64 < 256" by arith
      ultimately have "?n = 192 + ?m div 64" using n by (blast intro: byte_of_nat_eq)
      with n1 show ?thesis by arith
    qed
  next
    case n2: False
    show ?thesis
    proof (cases "?m < 128")
      case True
      with n2 assms have "(of_nat (192 + ?n div 64) :: byte) = of_nat ?m"
        by (simp add: utf8_char_def Let_def)
      moreover from n have "192 + ?n div 64 < 256" by arith
      ultimately have "192 + ?n div 64 = ?m" using m by (blast intro: byte_of_nat_eq)
      with True show ?thesis by arith
    next
      case False
      with n2 assms have a: "(of_nat (192 + ?n div 64) :: byte) = of_nat (192 + ?m div 64)"
        and b: "(of_nat (128 + ?n mod 64) :: byte) = of_nat (128 + ?m mod 64)" and r: "r = r'"
        by (simp_all add: utf8_char_def Let_def)
      from n m have "192 + ?n div 64 < 256" "192 + ?m div 64 < 256" by arith+
      with a have "192 + ?n div 64 = 192 + ?m div 64" by (blast intro: byte_of_nat_eq)
      then have d: "?n div 64 = ?m div 64" by simp
      have "128 + ?n mod 64 < 256" "128 + ?m mod 64 < 256" by arith+
      with b have "128 + ?n mod 64 = 128 + ?m mod 64" by (blast intro: byte_of_nat_eq)
      then have "?n mod 64 = ?m mod 64" by simp
      with d have "?n = ?m" by (metis div_mult_mod_eq)
      with r show ?thesis by simp
    qed
  qed
  then show ?thesis by (simp only: of_char_eq_iff)
qed

lemma utf8_char_nonempty: "utf8_char c \<noteq> []"
  by (simp add: utf8_char_def Let_def)

lemma utf8_encode_inj: "utf8_encode s = utf8_encode t \<Longrightarrow> s = t"
proof (induction s arbitrary: t)
  case Nil
  then show ?case by (cases t) (auto simp: utf8_encode_def utf8_char_nonempty)
next
  case (Cons c s)
  show ?case
  proof (cases t)
    case Nil
    with Cons.prems show ?thesis by (auto simp: utf8_encode_def utf8_char_nonempty)
  next
    case (Cons d t')
    with Cons.prems have "utf8_char c @ utf8_encode s = utf8_char d @ utf8_encode t'"
      by (simp add: utf8_encode_def)
    then have "c = d \<and> utf8_encode s = utf8_encode t'" by (rule utf8_char_append_inj)
    with Cons.IH Cons show ?thesis by simp
  qed
qed

lemma sep_split_inj:
  "x \<notin> set a \<Longrightarrow> x \<notin> set a' \<Longrightarrow> a @ x # r = a' @ x # r' \<Longrightarrow> a = a' \<and> r = r'"
proof (induction a arbitrary: a')
  case Nil
  then show ?case by (cases a') auto
next
  case (Cons y a)
  then show ?case by (cases a') auto
qed

lemma key_string_inj:
  assumes "CHR ''|'' \<notin> set (trim_field s) \<union> set (trim_field e) \<union> set (trim_field t)"
    and "CHR ''|'' \<notin> set (trim_field s') \<union> set (trim_field e') \<union> set (trim_field t')"
    and "key_string s e t a = key_string s' e' t' a'"
  shows "trim_field s = trim_field s' \<and> trim_field e = trim_field e' \<and> trim_field t = trim_field t'
         \<and> trim_field a = trim_field a'"
proof -
  from assms have 1: "trim_field s = trim_field s'"
    and r1: "trim_field e @ ''|'' @ trim_field t @ ''|'' @ trim_field a = trim_field e' @ ''|'' @ trim_field t' @ ''|'' @ trim_field a'"
    using sep_split_inj [of "CHR ''|''" "trim_field s" "trim_field s'"] by (auto simp: key_string_def)
  from assms r1 have 2: "trim_field e = trim_field e'"
    and r2: "trim_field t @ ''|'' @ trim_field a = trim_field t' @ ''|'' @ trim_field a'"
    using sep_split_inj [of "CHR ''|''" "trim_field e" "trim_field e'"] by auto
  from assms r2 have "trim_field t = trim_field t' \<and> trim_field a = trim_field a'"
    using sep_split_inj [of "CHR ''|''" "trim_field t" "trim_field t'"] by auto
  with 1 2 show ?thesis by simp
qed

lemma or_empty_eq: "or_empty x = (case x of None \<Rightarrow> [] | Some s \<Rightarrow> s)"
  by (cases x) (simp_all add: or_empty_def)

lemma key_hash_eq:
  "compute_key_hash s e t a = hexdigest (sha256 (utf8_encode (key_string s e t a)))"
  by (simp add: compute_key_hash_def key_parts_def key_string_def trim_field_def or_empty_eq Let_def)

lemma sha_round_length: "length (sha_round v kw) = length v"
  by (cases "(v, kw)" rule: sha_round.cases) (simp_all add: Let_def)

lemma foldl_sha_round_length: "length (foldl sha_round v xs) = length v"
  by (induction xs arbitrary: v) (simp_all add: sha_round_length)

lemma sha_compress_length: "length (sha_compress hs b) = length hs"
  by (simp add: sha_compress_def foldl_sha_round_length)

lemma foldl_sha_compress_length: "length (foldl sha_compress hs bs) = length hs"
  by (induction bs arbitrary: hs) (simp_all add: sha_compress_length)

lemma length_bytes_of_words: "length (concat (map bytes_of_word32 ws)) = 4 * length ws"
  by (induction ws) (simp_all add: bytes_of_word32_def)

lemma sha256_length: "length (sha256 m) = 32"
  by (simp add: sha256_def Let_def length_bytes_of_words foldl_sha_compress_length sha_H0_def)

lemma hexdigest_length: "length (hexdigest bs) = 2 * length bs"
  by (induction bs) (simp_all add: hexdigest_def hex_of_byte_def)

lemma hex_of_byte_chars: "set (hex_of_byte b) \<subseteq> set ''0123456789abcdef''"
proof -
  have "unat b < 256" using unsigned_less [of b, where ?'a = nat] by simp
  then have "unat b div 16 < 16" and "unat b mod 16 < 16" by arith+
  then have "''0123456789abcdef'' ! (unat b div 16) \<in> set ''0123456789abcdef''"
    and "''0123456789abcdef'' ! (unat b mod 16) \<in> set ''0123456789abcdef''"
    by (simp_all only: nth_mem length_Cons list.size)
  then show ?thesis unfolding hex_of_byte_def by simp
qed

lemma hexdigest_chars: "set (hexdigest bs) \<subseteq> set ''0123456789abcdef''"
proof -
  have "set (hexdigest bs) = (\<Union>b \<in> set bs. set (hex_of_byte b))"
    by (simp add: hexdigest_def)
  with hex_of_byte_chars show ?thesis by blast
qed

lemmas page_defs = book_of_row_def example_row_def example_book_def example_lib_def
  short_row_def short_book_def table_doc_def GOODREADS_BASE_def Let_def

lemma parse_one_page:
  "parse_shelf (example_lib site [(h, t)] pairs) h u
     = parse_rows (example_lib site [(h, t)] pairs) u (entry_rows t) []"
  by (simp add: parse_shelf_def soup_one_page entry_rows_def)

lemma parse_mixed_page:
  "parse_shelf (example_lib (\<lambda>u. mixed_html) [(mixed_html, mixed_page)] []) mixed_html None
     = Inr [short_book, short_book]"
  unfolding parse_one_page
  by (simp add: entry_rows_def mixed_page_def page_defs dom_defs row_defs str_defs int_defs)

lemmas trim_defs = trim_field_def py_strip_def lstrip_by_def rstrip_by_def py_isspace_def

text \<open>A known answer of SHA-256 (FIPS 180-4, the one-block message \<open>abc\<close>).\<close>

lemma sha256_abc:
  "hexdigest (sha256 (utf8_encode ''abc''))
     = ''ba7816bf8f01cfea414140de5dae2223b00361a396177a9cb410ff61f20015ad''"
  by code_simp

section \<open>Year extraction\<close>

text \<open>
  C1. The year of a publication date is specified as the last run of four digits of the
  cell text, and the docstring of \<open>extract_year_from_date\<close> says the same. The function
  calls \<open>re.search\<close>, which returns the leftmost match: on a text with two years it
  returns the first one, 2001 here, where the last one is 1999.
\<close>

theorem extract_year_takes_first_run:
  "extract_year_from_date (Some ''Jan 01, 2001 (first published 1999)'') = Some 2001
   \<and> map_option digits_val (last_four_digits ''Jan 01, 2001 (first published 1999)'')
       = Some 1999"
  by (simp add: extract_year_from_date_def last_four_digits_def str_defs int_defs)

section \<open>The input resolver\<close>

lemma str_isdigit_iff:
  "str_isdigit raw =
     (raw \<noteq> [] \<and> (\<forall>c \<in> set raw. c \<in> set ''0123456789'' \<or> c \<in> set [CHR 0xB2, CHR 0xB3, CHR 0xB9]))"
  unfolding str_isdigit_def list_all_iff py_isdigit_char_def is_decimal_def ..

text \<open>
  C9, as stated. The second rule of the claim is for strings that consist entirely of
  decimal digits, and every other string that is not an existing path is returned
  unchanged. The code tests \<open>arg.isdigit()\<close>, which also holds of the superscript digits:
  the one-character string U+00B2 is not a string of decimal digits, it is no existing
  path, and it is not returned unchanged.
\<close>

theorem resolve_superscript_digit_counterexample:
  "resolve_input (\<lambda>p. False) [CHR 0xB2] \<noteq> spec_resolve (\<lambda>p. False) [CHR 0xB2]"
  by (simp add: resolve_input_def spec_resolve_def str_defs GOODREADS_BASE_def)

text \<open>
  C9, amended. The rules are applied in order and the first match wins: an existing path
  is returned unchanged; otherwise a non-empty string all of whose characters are digits
  for \<open>str.isdigit\<close> (the decimal digits and the superscript digits) gives the shelf
  URL of that user; every other string, with an HTTP(S) scheme or without one, is
  returned unchanged.
\<close>

theorem resolve_input_rules:
  "resolve_input exists raw =
     (if exists raw then raw
      else if raw \<noteq> []
              \<and> (\<forall>c \<in> set raw. c \<in> set ''0123456789'' \<or> c \<in> set [CHR 0xB2, CHR 0xB3, CHR 0xB9])
        then ''https://www.goodreads.com/review/list/'' @ raw @ ''?shelf=read''
      else raw)"
  unfolding resolve_input_def str_isdigit_iff GOODREADS_BASE_def
  by (simp only: if_cancel append.simps append_assoc)

theorem resolve_input_rules_witness:
  "resolve_input (\<lambda>p. p = ''Noah-read-shelf.html'') ''162248230''
      = ''https://www.goodreads.com/review/list/162248230?shelf=read''
   \<and> resolve_input (\<lambda>p. p = ''Noah-read-shelf.html'') ''https://example.com/x''
      = ''https://example.com/x''
   \<and> resolve_input (\<lambda>p. p = ''Noah-read-shelf.html'') ''Noah-read-shelf.html''
      = ''Noah-read-shelf.html''"
  using resolve_input_rules [of "\<lambda>p. p = ''Noah-read-shelf.html''" "''162248230''"]
    resolve_input_rules [of "\<lambda>p. p = ''Noah-read-shelf.html''" "''https://example.com/x''"]
    resolve_input_rules [of "\<lambda>p. p = ''Noah-read-shelf.html''" "''Noah-read-shelf.html''"]
  by simp

section \<open>The pagination loop\<close>

text \<open>
  C5. With a page size of 10, an iteration that fetched and parsed a page ends the loop
  without appending when the page has no record, ends it after appending when the page
  has fewer than 10 records, and otherwise goes on with the next page number. So pages of
  10, 10 and 4 records give three fetches and the 24 records in page order, and an empty
  first page gives one fetch and no record. The loop does return in these cases.
\<close>

theorem pagination_per_page_10:
  "parse_query L resolved = Inr pairs \<Longrightarrow> py_int (per_page_text pairs) = Some 10 \<Longrightarrow>
   (\<forall>page url recs acc log.
       fetch_page L resolved page = Inr (url, recs) \<longrightarrow>
       paginate L resolved page acc log =
         (if recs = [] then Some (Inr acc, log @ [url])
          else if length recs < 10 then Some (Inr (acc @ recs), log @ [url])
          else paginate L resolved (page + 1) (acc @ recs) (log @ [url])))
   \<and> (\<forall>u1 b1 u2 b2 u3 b3.
         fetch_page L resolved 1 = Inr (u1, b1) \<and> length b1 = 10 \<and>
         fetch_page L resolved 2 = Inr (u2, b2) \<and> length b2 = 10 \<and>
         fetch_page L resolved 3 = Inr (u3, b3) \<and> length b3 = 4 \<longrightarrow>
         paginate L resolved 1 [] [] = Some (Inr (b1 @ b2 @ b3), [u1, u2, u3])
           \<and> length (b1 @ b2 @ b3) = 24)
   \<and> (\<forall>u1. fetch_page L resolved 1 = Inr (u1, []) \<longrightarrow>
         paginate L resolved 1 [] [] = Some (Inr [], [u1]))"
proof -
  assume pq: "parse_query L resolved = Inr pairs" and pp: "py_int (per_page_text pairs) = Some 10"
  have step: "paginate L resolved page acc log =
         (if recs = [] then Some (Inr acc, log @ [url])
          else if length recs < 10 then Some (Inr (acc @ recs), log @ [url])
          else paginate L resolved (page + 1) (acc @ recs) (log @ [url]))"
    if "fetch_page L resolved page = Inr (url, recs)" for page url recs acc log
    using paginate_step [OF pq that, of acc log] pp by simp
  have three: "paginate L resolved 1 [] [] = Some (Inr (b1 @ b2 @ b3), [u1, u2, u3])"
    if f1: "fetch_page L resolved 1 = Inr (u1, b1)" and l1: "length b1 = 10"
      and f2: "fetch_page L resolved 2 = Inr (u2, b2)" and l2: "length b2 = 10"
      and f3: "fetch_page L resolved 3 = Inr (u3, b3)" and l3: "length b3 = 4"
    for u1 b1 u2 b2 u3 b3
  proof -
    from l1 l2 l3 have ne: "b1 \<noteq> []" "b2 \<noteq> []" "b3 \<noteq> []" by auto
    have "paginate L resolved 1 [] [] = paginate L resolved (1 + 1) b1 [u1]"
      using step [OF f1, of "[]" "[]"] ne l1 by simp
    also have "\<dots> = paginate L resolved 2 b1 [u1]" by (simp add: numeral_2_eq_2)
    also have "\<dots> = paginate L resolved (2 + 1) (b1 @ b2) [u1, u2]"
      using step [OF f2, of b1 "[u1]"] ne l2 by simp
    also have "\<dots> = paginate L resolved 3 (b1 @ b2) [u1, u2]" by (simp add: numeral_3_eq_3 numeral_2_eq_2)
    also have "\<dots> = Some (Inr (b1 @ b2 @ b3), [u1, u2, u3])"
      using step [OF f3, of "b1 @ b2" "[u1, u2]"] ne l3 by simp
    finally show ?thesis .
  qed
  have none: "paginate L resolved 1 [] [] = Some (Inr [], [u1])"
    if "fetch_page L resolved 1 = Inr (u1, [])" for u1
    using step [OF that, of "[]" "[]"] by simp
  show ?thesis
    using step three none by auto
qed

theorem pagination_per_page_10_witness:
  "paginate (example_lib three_pages (page_trees [10, 4, 0]) [(''shelf'', ''read'')])
      ''https://www.goodreads.com/review/list/1?shelf=read'' 1 [] []
     = Some (Inr (replicate 10 short_book @ replicate 10 short_book @ replicate 4 short_book),
             [''https://www.goodreads.com/review/list/1?shelf=read&per_page=10&page=1'',
              ''https://www.goodreads.com/review/list/1?shelf=read&per_page=10&page=2'',
              ''https://www.goodreads.com/review/list/1?shelf=read&per_page=10&page=3''])
   \<and> paginate (example_lib (\<lambda>u. page_html 0) (page_trees [0]) [(''shelf'', ''read'')])
      ''https://www.goodreads.com/review/list/1?shelf=read'' 1 [] []
     = Some (Inr [], [''https://www.goodreads.com/review/list/1?shelf=read&per_page=10&page=1''])"
proof -
  let ?r = "''https://www.goodreads.com/review/list/1?shelf=read''"
  let ?ps = "[(''shelf'', ''read'')]"
  let ?L = "example_lib three_pages (page_trees [10, 4, 0]) ?ps"
  let ?E = "example_lib (\<lambda>u. page_html 0) (page_trees [0]) ?ps"
  have pp: "py_int (per_page_text ?ps) = Some 10"
    by (simp add: per_page_text_def str_defs int_defs)
  have u: "replace_query (example_lib site trees ?ps) ?r (page_query ?ps 1)
             = ''https://www.goodreads.com/review/list/1?shelf=read&per_page=10&page=1''"
     "replace_query (example_lib site trees ?ps) ?r (page_query ?ps 2)
             = ''https://www.goodreads.com/review/list/1?shelf=read&per_page=10&page=2''"
     "replace_query (example_lib site trees ?ps) ?r (page_query ?ps 3)
             = ''https://www.goodreads.com/review/list/1?shelf=read&per_page=10&page=3''"
    for site trees
    by (simp_all add: replace_query_example query_defs py_str_nat_digit digit_char_def)
  have f1: "fetch_page ?L ?r 1 = Inr (''https://www.goodreads.com/review/list/1?shelf=read&per_page=10&page=1'', replicate 10 short_book)"
    using fetch_example_page [of three_pages "[10, 4, 0]" ?ps ?r 1 10]
    by (simp only: u) (simp add: three_pages_def)
  have f2: "fetch_page ?L ?r 2 = Inr (''https://www.goodreads.com/review/list/1?shelf=read&per_page=10&page=2'', replicate 10 short_book)"
    using fetch_example_page [of three_pages "[10, 4, 0]" ?ps ?r 2 10]
    by (simp only: u) (simp add: three_pages_def)
  have f3: "fetch_page ?L ?r 3 = Inr (''https://www.goodreads.com/review/list/1?shelf=read&per_page=10&page=3'', replicate 4 short_book)"
    using fetch_example_page [of three_pages "[10, 4, 0]" ?ps ?r 3 4]
    by (simp only: u) (simp add: three_pages_def)
  have e1: "fetch_page ?E ?r 1 = Inr (''https://www.goodreads.com/review/list/1?shelf=read&per_page=10&page=1'', [])"
    using fetch_example_page [of "\<lambda>u. page_html 0" "[0]" ?ps ?r 1 0] by (simp only: u) simp
  from pagination_per_page_10 [OF parse_query_example pp, of three_pages "page_trees [10, 4, 0]" ?r] f1 f2 f3
  have "paginate ?L ?r 1 [] [] = Some (Inr (replicate 10 short_book @ replicate 10 short_book @ replicate 4 short_book),
             [''https://www.goodreads.com/review/list/1?shelf=read&per_page=10&page=1'',
              ''https://www.goodreads.com/review/list/1?shelf=read&per_page=10&page=2'',
              ''https://www.goodreads.com/review/list/1?shelf=read&per_page=10&page=3''])"
    by (metis length_replicate)
  moreover from pagination_per_page_10 [OF parse_query_example pp, of "\<lambda>u. page_html 0" "page_trees [0]" ?r] e1
  have "paginate ?E ?r 1 [] [] = Some (Inr [], [''https://www.goodreads.com/review/list/1?shelf=read&per_page=10&page=1''])"
    by blast
  ultimately show ?thesis by (rule conjI)
qed

text \<open>
  C10, as stated. The condition of the claim is that the shelf URL carries a \<open>per_page\<close>
  parameter whose value \<open>int\<close> rejects. The parameters go through a \<open>dict\<close>, where the
  last value of a key wins: for \<open>per_page=abc&per_page=20\<close> the page size is 20, and after
  a full first page of 20 records the loop goes on to page 2.
\<close>

theorem pagination_repeated_per_page_counterexample:
  "py_int ''abc'' = None
   \<and> paginate (example_lib two_pages (page_trees [20, 5, 0]) [(''per_page'', ''abc''), (''per_page'', ''20'')])
      ''https://www.goodreads.com/review/list/1?per_page=abc&per_page=20'' 1 [] []
     = Some (Inr (replicate 20 short_book @ replicate 5 short_book),
             [''https://www.goodreads.com/review/list/1?per_page=20&page=1'',
              ''https://www.goodreads.com/review/list/1?per_page=20&page=2''])"
proof -
  let ?r = "''https://www.goodreads.com/review/list/1?per_page=abc&per_page=20''"
  let ?ps = "[(''per_page'', ''abc''), (''per_page'', ''20'')]"
  let ?L = "example_lib two_pages (page_trees [20, 5, 0]) ?ps"
  have bad: "py_int ''abc'' = None" by (simp add: str_defs int_defs)
  have pp: "py_int (per_page_text ?ps) = Some 20"
    by (simp add: per_page_text_def str_defs int_defs)
  have u: "replace_query ?L ?r (page_query ?ps 1)
             = ''https://www.goodreads.com/review/list/1?per_page=20&page=1''"
     "replace_query ?L ?r (page_query ?ps 2)
             = ''https://www.goodreads.com/review/list/1?per_page=20&page=2''"
    by (simp_all add: replace_query_example query_defs py_str_nat_digit digit_char_def)
  have f1: "fetch_page ?L ?r 1 = Inr (''https://www.goodreads.com/review/list/1?per_page=20&page=1'', replicate 20 short_book)"
    using fetch_example_page [of two_pages "[20, 5, 0]" ?ps ?r 1 20]
    by (simp only: u) (simp add: two_pages_def)
  have f2: "fetch_page ?L ?r 2 = Inr (''https://www.goodreads.com/review/list/1?per_page=20&page=2'', replicate 5 short_book)"
    using fetch_example_page [of two_pages "[20, 5, 0]" ?ps ?r 2 5]
    by (simp only: u) (simp add: two_pages_def)
  have "paginate ?L ?r 1 [] [] = paginate ?L ?r (1 + 1) (replicate 20 short_book)
          [''https://www.goodreads.com/review/list/1?per_page=20&page=1'']"
    using paginate_step [OF parse_query_example f1, of "[]" "[]"] pp by simp
  also have "\<dots> = paginate ?L ?r 2 (replicate 20 short_book)
          [''https://www.goodreads.com/review/list/1?per_page=20&page=1'']"
    by (simp add: numeral_2_eq_2)
  also have "\<dots> = Some (Inr (replicate 20 short_book @ replicate 5 short_book),
             [''https://www.goodreads.com/review/list/1?per_page=20&page=1'',
              ''https://www.goodreads.com/review/list/1?per_page=20&page=2''])"
    using paginate_step [OF parse_query_example f2, of "replicate 20 short_book"
        "[''https://www.goodreads.com/review/list/1?per_page=20&page=1'']"] pp by simp
  finally show ?thesis using bad by simp
qed

text \<open>
  C10, amended. When the last \<open>per_page\<close> parameter that \<open>parse_qsl\<close> reads from the shelf
  URL (it reads no parameter with a blank value) has a value that \<open>int\<close> rejects, the loop
  does not fail on it: if page 1 is fetched and parsed, the loop returns the records of
  page 1 after that one fetch, whatever their number.
\<close>

theorem pagination_unparseable_per_page:
  "parse_query L resolved = Inr pairs \<Longrightarrow> map_of (rev pairs) ''per_page'' = Some v \<Longrightarrow>
   py_int v = None \<Longrightarrow> fetch_page L resolved 1 = Inr (url, recs) \<Longrightarrow>
   paginate L resolved 1 [] [] = Some (Inr recs, [url])"
proof -
  assume pq: "parse_query L resolved = Inr pairs" and v: "map_of (rev pairs) ''per_page'' = Some v"
    and bad: "py_int v = None" and f: "fetch_page L resolved 1 = Inr (url, recs)"
  from v bad have "py_int (per_page_text pairs) = None" by (simp add: per_page_text_def)
  with paginate_step [OF pq f, of "[]" "[]"] show ?thesis by simp
qed

theorem pagination_unparseable_per_page_witness:
  "paginate (example_lib (\<lambda>u. page_html 20) (page_trees [20]) [(''shelf'', ''read''), (''per_page'', ''all'')])
      ''https://www.goodreads.com/review/list/1?shelf=read&per_page=all'' 1 [] []
     = Some (Inr (replicate 20 short_book),
             [''https://www.goodreads.com/review/list/1?shelf=read&per_page=all&page=1''])"
proof -
  let ?r = "''https://www.goodreads.com/review/list/1?shelf=read&per_page=all''"
  let ?ps = "[(''shelf'', ''read''), (''per_page'', ''all'')]"
  let ?L = "example_lib (\<lambda>u. page_html 20) (page_trees [20]) ?ps"
  have v: "map_of (rev ?ps) ''per_page'' = Some ''all''" by simp
  have bad: "py_int ''all'' = None" by (simp add: str_defs int_defs)
  have u: "replace_query ?L ?r (page_query ?ps 1)
             = ''https://www.goodreads.com/review/list/1?shelf=read&per_page=all&page=1''"
    by (simp add: replace_query_example query_defs py_str_nat_digit digit_char_def)
  have f: "fetch_page ?L ?r 1 = Inr (''https://www.goodreads.com/review/list/1?shelf=read&per_page=all&page=1'', replicate 20 short_book)"
    using fetch_example_page [of "\<lambda>u. page_html 20" "[20]" ?ps ?r 1 20] by (simp only: u) simp
  show ?thesis by (rule pagination_unparseable_per_page [OF parse_query_example v bad f])
qed

section \<open>The query of a page URL\<close>

text \<open>
  C6, as stated. Every other query parameter is claimed to keep its keys, values and
  multiplicity, also for a repeated key. The code puts the parameters in a \<open>dict\<close>: of
  \<open>shelf=read&shelf=to-read\<close> only the second parameter is left.
\<close>

theorem page_query_repeated_key_counterexample:
  "length (filter (\<lambda>(k, v). k = ''shelf'') (page_query [(''shelf'', ''read''), (''shelf'', ''to-read'')] 1)) = 1
   \<and> length (filter (\<lambda>(k, v). k = ''shelf'') [(''shelf'', ''read''), (''shelf'', ''to-read'')]) = 2
   \<and> (''shelf'', ''read'') \<notin> set (page_query [(''shelf'', ''read''), (''shelf'', ''to-read'')] 1)"
  by (simp add: query_defs py_str_nat_digit digit_char_def)

text \<open>
  C6, amended. In the query of the page URL every key occurs once; the keys are those of
  the initial URL together with \<open>page\<close> and \<open>per_page\<close>; \<open>page\<close> is the decimal text
  of the page number; \<open>per_page\<close> is the last value the initial URL gives it, and 10
  when it gives none; every other key has the last value the initial URL gives it; and
  when the initial URL repeats no key the other parameters are the same ones in the same
  order. The parameters are those that \<open>parse_qsl\<close> reads from the initial URL.
\<close>

theorem page_query_parameters:
  "distinct (map fst (page_query pairs page))
   \<and> set (map fst (page_query pairs page)) = fst ` set pairs \<union> {''page'', ''per_page''}
   \<and> dict_get (page_query pairs page) ''page'' = Some (py_str_nat page)
   \<and> digits_val (py_str_nat page) = int page
   \<and> dict_get (page_query pairs page) ''per_page''
       = Some (case map_of (rev pairs) ''per_page'' of None \<Rightarrow> ''10'' | Some v \<Rightarrow> v)
   \<and> (\<forall>k. k \<noteq> ''page'' \<and> k \<noteq> ''per_page'' \<longrightarrow>
          dict_get (page_query pairs page) k = map_of (rev pairs) k)
   \<and> (distinct (map fst pairs) \<longrightarrow>
          filter (\<lambda>(k, v). k \<noteq> ''page'' \<and> k \<noteq> ''per_page'') (page_query pairs page)
            = filter (\<lambda>(k, v). k \<noteq> ''page'' \<and> k \<noteq> ''per_page'') pairs)"
  using distinct_page_query [of pairs page] keys_page_query [of pairs page]
    page_lookup [of pairs page] digits_val_py_str_nat [of page] per_page_lookup [of pairs page]
    other_lookup [of _ pairs page] others_page_query [of pairs page]
  unfolding per_page_text_def by blast

theorem page_query_parameters_witness:
  "dict_get (page_query [(''shelf'', ''read''), (''sort'', ''date_read'')] 2) ''shelf'' = Some ''read''
   \<and> filter (\<lambda>(k, v). k \<noteq> ''page'' \<and> k \<noteq> ''per_page'') (page_query [(''shelf'', ''read''), (''sort'', ''date_read'')] 2)
       = [(''shelf'', ''read''), (''sort'', ''date_read'')]"
  using page_query_parameters [of "[(''shelf'', ''read''), (''sort'', ''date_read'')]" 2]
  by simp

section \<open>The records of a page\<close>

text \<open>
  C2, as stated. A record is claimed to have every field of the data model, among them
  \<open>keyHash\<close>. In the dictionary that \<open>parse_shelf\<close> builds, the entries \<open>keyHash\<close>,
  \<open>externalId\<close> and \<open>publishedYear\<close> are commented out: the record of a row with a
  book address and a publication date has none of the three.
\<close>

theorem parse_shelf_no_key_hash_counterexample:
  "parse_shelf (example_lib (\<lambda>u. letter_html) [(letter_html, letter_page)] []) letter_html None
     = Inr [example_book ''A Letter'' (JStr ''Locke, John'')]
   \<and> map_of (example_book ''A Letter'' (JStr ''Locke, John'')) ''keyHash'' = None
   \<and> \<not> set data_model_fields \<subseteq> set (map fst (example_book ''A Letter'' (JStr ''Locke, John'')))"
  unfolding parse_one_page
  by (simp add: entry_rows_def letter_page_def page_defs dom_defs row_defs str_defs int_defs
      data_model_fields_def)

text \<open>
  C2, amended. When \<open>parse_shelf\<close> returns, it returns one record for each entry row with
  a title link, in the order of the rows, and nothing else. The record of a row has
  exactly the fields \<open>source\<close>, \<open>title\<close>, \<open>authors\<close>, \<open>pageCount\<close> and \<open>coverUrl\<close>, in
  this order; \<open>source\<close> is \<open>OTHER\<close>, \<open>title\<close> is the text of the link, and each of the
  three optional fields is present, with an explicit null when the row gives no value.
\<close>

theorem parse_shelf_record_fields:
  "beautiful_soup L html = Inr soup \<Longrightarrow> parse_shelf L html u = Inr books \<Longrightarrow>
   books = List.map_filter
             (\<lambda>row. map_option
                (\<lambda>link. [(''source'', JStr ''OTHER''),
                          (''title'', JStr (get_text [] link)),
                          (''authors'', case row_authors row of None \<Rightarrow> JNull | Some a \<Rightarrow> JStr a),
                          (''pageCount'', case row_page_count row of None \<Rightarrow> JNull | Some n \<Rightarrow> JInt n),
                          (''coverUrl'', case row_cover_url row of None \<Rightarrow> JNull | Some c \<Rightarrow> JStr c)])
                (title_link row))
             (entry_rows soup)
   \<and> (\<forall>b \<in> set books. map fst b = [''source'', ''title'', ''authors'', ''pageCount'', ''coverUrl''])"
proof -
  assume s: "beautiful_soup L html = Inr soup" and p: "parse_shelf L html u = Inr books"
  have e: "emitted_record row = (\<lambda>link. [(''source'', JStr ''OTHER''),
                          (''title'', JStr (get_text [] link)),
                          (''authors'', case row_authors row of None \<Rightarrow> JNull | Some a \<Rightarrow> JStr a),
                          (''pageCount'', case row_page_count row of None \<Rightarrow> JNull | Some n \<Rightarrow> JInt n),
                          (''coverUrl'', case row_cover_url row of None \<Rightarrow> JNull | Some c \<Rightarrow> JStr c)])" for row
    by (simp add: emitted_record_def json_str_def json_int_def fun_eq_iff)
  from s p have b: "books = List.map_filter (\<lambda>row. map_option (emitted_record row) (title_link row)) (entry_rows soup)"
    using parse_rows_Inr [of L u "entry_rows soup" "[]" books] by (simp add: parse_shelf_def entry_rows_def)
  have k: "\<forall>b \<in> set books. map fst b = [''source'', ''title'', ''authors'', ''pageCount'', ''coverUrl'']"
    unfolding b set_map_filter by (auto simp: emitted_record_def)
  from b k show ?thesis unfolding e by simp
qed

theorem parse_shelf_record_fields_witness:
  "parse_shelf (example_lib (\<lambda>u. mixed_html) [(mixed_html, mixed_page)] []) mixed_html None
     = Inr [short_book, short_book]
   \<and> map fst short_book = [''source'', ''title'', ''authors'', ''pageCount'', ''coverUrl'']
   \<and> map_of short_book ''authors'' = Some JNull"
  using parse_shelf_record_fields [OF soup_one_page parse_mixed_page] parse_mixed_page
  by (simp add: short_book_def)




text \<open>
  C8. The authors of a row are specified to be null when the author cell has no content
  after trimming. The branch for an author cell without hyperlinks does this
  (\<open>get_text(strip=True) or None\<close>); the branch for a cell with hyperlinks does not: a
  cell whose only hyperlink has no visible text gives the empty string, not null.
\<close>

theorem authors_empty_link_text:
  "row_authors (example_row ''T'' [Elem ''a'' [] [(''href'', ''/author/show/1'')] []]) = Some []
   \<and> book_of_row (example_lib (\<lambda>u. page_html 0) [] []) None
        (example_row ''T'' [Elem ''a'' [] [(''href'', ''/author/show/1'')] []])
       = Inr (Some (example_book ''T'' (JStr [])))
   \<and> row_authors (example_row ''T'' [Text ''  '']) = None"
  by (simp add: page_defs dom_defs row_defs str_defs int_defs)

section \<open>The key hash\<close>

text \<open>
  C3, as stated. Two quadruples that differ after trimming are claimed to have different
  hashes. The fields are joined with \<open>|\<close> and a field may contain that character: the
  titles \<open>A|B\<close> with no author and \<open>A\<close> with the author \<open>B|\<close> give the same joined
  string, hence the same hash.
\<close>

theorem key_hash_separator_collision_counterexample:
  "compute_key_hash (Some ''OTHER'') None (Some ''A|B'') None
     = compute_key_hash (Some ''OTHER'') None (Some ''A'') (Some ''B|'')
   \<and> (trim_field (Some ''OTHER''), trim_field None, trim_field (Some ''A|B''), trim_field None)
       \<noteq> (trim_field (Some ''OTHER''), trim_field None, trim_field (Some ''A''), trim_field (Some ''B|''))"
  by (simp add: key_hash_eq key_string_def trim_field_def py_strip_def lstrip_by_def rstrip_by_def py_isspace_def)

text \<open>
  C3, amended. Two quadruples that differ after trimming, and whose trimmed source,
  externalId and title contain no \<open>|\<close>, are hashed from two different byte strings; their
  hashes are equal only if SHA-256 gives these two byte strings the same digest.
\<close>

theorem key_hash_preimages_distinct:
  assumes "CHR ''|'' \<notin> set (trim_field s) \<union> set (trim_field e) \<union> set (trim_field t)"
    and "CHR ''|'' \<notin> set (trim_field s') \<union> set (trim_field e') \<union> set (trim_field t')"
    and "(trim_field s, trim_field e, trim_field t, trim_field a)
           \<noteq> (trim_field s', trim_field e', trim_field t', trim_field a')"
  shows "utf8_encode (key_string s e t a) \<noteq> utf8_encode (key_string s' e' t' a')
     \<and> (compute_key_hash s e t a = compute_key_hash s' e' t' a' \<longrightarrow>
          hexdigest (sha256 (utf8_encode (key_string s e t a)))
            = hexdigest (sha256 (utf8_encode (key_string s' e' t' a'))))"
proof
  show "utf8_encode (key_string s e t a) \<noteq> utf8_encode (key_string s' e' t' a')"
  proof
    assume "utf8_encode (key_string s e t a) = utf8_encode (key_string s' e' t' a')"
    then have "key_string s e t a = key_string s' e' t' a'" by (rule utf8_encode_inj)
    with assms(1,2) have "trim_field s = trim_field s' \<and> trim_field e = trim_field e'
        \<and> trim_field t = trim_field t' \<and> trim_field a = trim_field a'"
      by (rule key_string_inj)
    with assms(3) show False by simp
  qed
  show "compute_key_hash s e t a = compute_key_hash s' e' t' a' \<longrightarrow>
          hexdigest (sha256 (utf8_encode (key_string s e t a)))
            = hexdigest (sha256 (utf8_encode (key_string s' e' t' a')))"
    by (simp add: key_hash_eq)
qed

theorem key_hash_preimages_distinct_witness:
  "utf8_encode (key_string (Some ''OTHER'') (Some ''364549'') (Some '' A Letter '') (Some ''Locke, John''))
     \<noteq> utf8_encode (key_string (Some ''OTHER'') (Some ''364549'') (Some ''A Letter'') None)"
proof -
  have 1: "CHR ''|'' \<notin> set (trim_field (Some ''OTHER'')) \<union> set (trim_field (Some ''364549'')) \<union> set (trim_field (Some '' A Letter ''))"
    by (simp add: trim_defs)
  have 2: "CHR ''|'' \<notin> set (trim_field (Some ''OTHER'')) \<union> set (trim_field (Some ''364549'')) \<union> set (trim_field (Some ''A Letter''))"
    by (simp add: trim_defs)
  have 3: "(trim_field (Some ''OTHER''), trim_field (Some ''364549''), trim_field (Some '' A Letter ''), trim_field (Some ''Locke, John''))
           \<noteq> (trim_field (Some ''OTHER''), trim_field (Some ''364549''), trim_field (Some ''A Letter''), trim_field None)"
    by (simp add: trim_defs)
  from key_hash_preimages_distinct [OF 1 2 3] show ?thesis by (rule conjunct1)
qed

text \<open>
  C4. The key hash is the lowercase hexadecimal SHA-256 digest (64 characters) of the UTF-8
  bytes of the key string: the four fields in the order source, externalId, title,
  authors, an absent field taken as empty, each trimmed, with one \<open>|\<close> between two
  fields. So two quadruples that are equal after trimming have the same hash.
\<close>

theorem key_hash_is_sha256_of_key_string:
  "compute_key_hash source external_id title authors
     = hexdigest (sha256 (utf8_encode (key_string source external_id title authors)))
   \<and> length (compute_key_hash source external_id title authors) = 64
   \<and> set (compute_key_hash source external_id title authors) \<subseteq> set ''0123456789abcdef''
   \<and> ((trim_field source, trim_field external_id, trim_field title, trim_field authors)
         = (trim_field source', trim_field external_id', trim_field title', trim_field authors')
       \<longrightarrow> compute_key_hash source external_id title authors
             = compute_key_hash source' external_id' title' authors')"
proof (intro conjI impI)
  show "compute_key_hash source external_id title authors
     = hexdigest (sha256 (utf8_encode (key_string source external_id title authors)))"
    by (rule key_hash_eq)
  show "length (compute_key_hash source external_id title authors) = 64"
    by (simp add: key_hash_eq hexdigest_length sha256_length)
  show "set (compute_key_hash source external_id title authors) \<subseteq> set ''0123456789abcdef''"
    unfolding key_hash_eq by (rule hexdigest_chars)
  assume "(trim_field source, trim_field external_id, trim_field title, trim_field authors)
         = (trim_field source', trim_field external_id', trim_field title', trim_field authors')"
  then show "compute_key_hash source external_id title authors
             = compute_key_hash source' external_id' title' authors'"
    by (simp add: key_hash_eq key_string_def)
qed

theorem key_hash_is_sha256_of_key_string_witness:
  "compute_key_hash (Some '' OTHER'') None (Some (''A Letter'' @ [CHR 0x0A])) (Some '' '')
     = compute_key_hash (Some ''OTHER'') (Some []) (Some ''A Letter'') None"
proof -
  have "(trim_field (Some '' OTHER''), trim_field None, trim_field (Some (''A Letter'' @ [CHR 0x0A])), trim_field (Some '' ''))
         = (trim_field (Some ''OTHER''), trim_field (Some []), trim_field (Some ''A Letter''), trim_field None)"
    by (simp add: trim_defs)
  with key_hash_is_sha256_of_key_string [of "Some '' OTHER''" None "Some (''A Letter'' @ [CHR 0x0A])" "Some '' ''"
      "Some ''OTHER''" "Some []" "Some ''A Letter''" None]
  show ?thesis by blast
qed

end
